theory Spec2Isabelle
  imports Complex_Main
begin

section \<open>Strings\<close>

text \<open>
  Source strings are modelled as \<^typ>\<open>string\<close>; a \<^typ>\<open>char\<close> stands for one code unit
  below 256. \<open>isWhiteSpace\<close> is the set that \<^verbatim>\<open>String.prototype.trim\<close> strips, restricted
  to that range: TAB, LF, VT, FF, CR, SPACE and NBSP.
\<close>

definition isWhiteSpace :: "char \<Rightarrow> bool" where
  "isWhiteSpace c = (of_char c \<in> {9, 10, 11, 12, 13, 32, 160 :: nat})"

definition trim :: "string \<Rightarrow> string" where
  "trim s = rev (dropWhile isWhiteSpace (rev (dropWhile isWhiteSpace s)))"

text \<open>\<^verbatim>\<open>text.endsWith('\n')\<close>\<close>

definition endsWithNewline :: "string \<Rightarrow> bool" where
  "endsWithNewline s = (s \<noteq> [] \<and> last s = CHR 0x0A)"

text \<open>
  Case folding of the regular expression flag \<^verbatim>\<open>i\<close> (without \<^verbatim>\<open>u\<close>): a code unit is
  compared by its upper-case form, and a non-ASCII unit is never folded onto an ASCII one,
  so only \<^verbatim>\<open>a-z\<close> can fold onto the letters of an ASCII pattern.
\<close>

definition canonicalize :: "char \<Rightarrow> char" where
  "canonicalize c =
     (if (97::nat) \<le> of_char c \<and> of_char c \<le> (122::nat)
      then (case c of Char b0 b1 b2 b3 b4 b5 b6 b7 \<Rightarrow> Char b0 b1 b2 b3 b4 False b6 b7)
      else c)"

fun startsWith :: "string \<Rightarrow> string \<Rightarrow> bool" where
  "startsWith s [] = True"
| "startsWith [] (p # ps) = False"
| "startsWith (c # cs) (p # ps) = (c = p \<and> startsWith cs ps)"

fun matchesSomewhere :: "string \<Rightarrow> string \<Rightarrow> bool" where
  "matchesSomewhere [] p = startsWith [] p"
| "matchesSomewhere (c # cs) p = (startsWith (c # cs) p \<or> matchesSomewhere cs p)"

text \<open>\<^verbatim>\<open>/commit/i.test(s)\<close>\<close>

definition regex_commit_i_test :: "string \<Rightarrow> bool" where
  "regex_commit_i_test s = matchesSomewhere (map canonicalize s) ''COMMIT''"

text \<open>\<^verbatim>\<open>[a, b].filter(Boolean).join('\n')\<close>\<close>

definition joinNonEmpty :: "string \<Rightarrow> string \<Rightarrow> string" where
  "joinNonEmpty a b =
     (if a = [] then b else if b = [] then a else a @ [CHR 0x0A] @ b)"

section \<open>The subprocess transport: \<^verbatim>\<open>SeshatRunner\<close>\<close>

text \<open>
  A value produced by \<^verbatim>\<open>JSON.parse\<close>. An object is the list of its own properties in
  source order. A number is kept as the text \<^verbatim>\<open>String(n)\<close> gives for it, which
  determines it: zero, of either sign, is \<^verbatim>\<open>"0"\<close>.
\<close>

datatype json =
    JNull
  | JBool bool
  | JNumber string
  | JString string
  | JArray "json list"
  | JObject "(string \<times> json) list"

text \<open>\<^verbatim>\<open>typeof parsed === 'object' && parsed !== null && 'event' in parsed\<close>:
  arrays are objects too, but \<^verbatim>\<open>'event'\<close> is never a property of an array.\<close>

fun isObjectWithEvent :: "json \<Rightarrow> bool" where
  "isObjectWithEvent (JObject kvs) = (''event'' \<in> fst ` set kvs)"
| "isObjectWithEvent _ = False"

definition infoFallback :: "string \<Rightarrow> json" where
  "infoFallback trimmed = JObject [(''event'', JString ''info''), (''message'', JString trimmed)]"

text \<open>What the runner emits to its listeners.\<close>

datatype notification =
    EmitEvent json
  | EmitStderr string
  | EmitClose "int option" "string option"
  | EmitError string

text \<open>
  The \<^verbatim>\<open>'line'\<close> handler of the standard-output reader. \<open>parsed\<close> is what
  \<^verbatim>\<open>JSON.parse(trimmed)\<close> gives: \<open>None\<close> when it throws, which the \<^verbatim>\<open>catch\<close> branch
  answers with the same fallback.
\<close>

definition stdoutLine :: "string \<Rightarrow> json option \<Rightarrow> notification list" where
  "stdoutLine line parsed =
     (let trimmed = trim line in
      if trimmed = [] then []
      else (case parsed of
              Some v \<Rightarrow> if isObjectWithEvent v then [EmitEvent v]
                        else [EmitEvent (infoFallback trimmed)]
            | None \<Rightarrow> [EmitEvent (infoFallback trimmed)]))"

definition stderrLine :: "string \<Rightarrow> notification list" where
  "stderrLine line = (let trimmed = trim line in if trimmed \<noteq> [] then [EmitStderr trimmed] else [])"

text \<open>
  The part of Node's \<^verbatim>\<open>ChildProcess\<close> the runner reads: \<^verbatim>\<open>killed\<close> is set by a
  \<^verbatim>\<open>kill()\<close> whose signal was delivered, \<^verbatim>\<open>stdin.writable\<close> holds until the input
  stream is ended or destroyed.
\<close>

record ChildProcess =
  killed :: bool
  stdin_writable :: bool

record SeshatRunner =
  process :: "ChildProcess option"
  stdoutReader :: bool
  stderrReader :: bool

definition newSeshatRunner :: SeshatRunner where
  "newSeshatRunner = \<lparr>process = None, stdoutReader = False, stderrReader = False\<rparr>"

definition isRunning :: "SeshatRunner \<Rightarrow> bool" where
  "isRunning r = (case process r of None \<Rightarrow> False | Some p \<Rightarrow> \<not> killed p)"

definition alreadyRunningText :: string where
  "alreadyRunningText = ''Seshat runner j'' @ [CHR 0xE1] @ '' est'' @ [CHR 0xE1]
      @ '' em execu'' @ [CHR 0xE7, CHR 0xE3] @ ''o.''"

text \<open>
  \<^verbatim>\<open>run\<close>: \<open>spawnThrows\<close> is the message of the exception \<^verbatim>\<open>spawn\<close> raises
  synchronously, if it does. \<open>Inl\<close> is the exception leaving \<^verbatim>\<open>run\<close>; nothing has been
  assigned then.
\<close>

definition run :: "string \<Rightarrow> string \<Rightarrow> string option \<Rightarrow> SeshatRunner \<Rightarrow> string + SeshatRunner" where
  "run cwd executablePath spawnThrows r =
     (if isRunning r then Inl alreadyRunningText
      else (case spawnThrows of
              Some m \<Rightarrow> Inl m
            | None \<Rightarrow> Inr (r\<lparr>process := Some \<lparr>killed = False, stdin_writable = True\<rparr>,
                             stdoutReader := True, stderrReader := True\<rparr>)))"

text \<open>
  \<^verbatim>\<open>respond\<close>: the returned flag and the payloads written to the input stream. The
  parameter is declared a string, but callers pass fields of events that nothing has
  validated, so the argument is any value, \<open>None\<close> for \<^verbatim>\<open>undefined\<close>; past the guard,
  \<^verbatim>\<open>text.endsWith\<close> throws a \<^verbatim>\<open>TypeError\<close> on anything but a string.
\<close>

datatype js_error = TypeError

definition respond :: "json option \<Rightarrow> SeshatRunner \<Rightarrow> js_error + bool \<times> string list" where
  "respond text r =
     (case process r of
        None \<Rightarrow> Inr (False, [])
      | Some p \<Rightarrow>
          if killed p \<or> \<not> stdin_writable p then Inr (False, [])
          else (case text of
                  Some (JString t) \<Rightarrow> Inr (True, [if endsWithNewline t then t else t @ [CHR 0x0A]])
                | _ \<Rightarrow> Inl TypeError))"

text \<open>\<^verbatim>\<open>kill\<close>: \<open>delivered\<close> tells whether the signal reached the process.\<close>

definition kill :: "bool \<Rightarrow> SeshatRunner \<Rightarrow> SeshatRunner" where
  "kill delivered r =
     (case process r of
        None \<Rightarrow> r
      | Some p \<Rightarrow> if \<not> killed p then r\<lparr>process := Some (p\<lparr>killed := delivered\<rparr>)\<rparr> else r)"

definition cleanupReaders :: "SeshatRunner \<Rightarrow> SeshatRunner" where
  "cleanupReaders r = r\<lparr>stdoutReader := False, stderrReader := False\<rparr>"

text \<open>The child's \<^verbatim>\<open>'close'\<close> handler.\<close>

definition childClose :: "int option \<Rightarrow> string option \<Rightarrow> SeshatRunner \<Rightarrow> SeshatRunner \<times> notification list" where
  "childClose code signal r = ((cleanupReaders r)\<lparr>process := None\<rparr>, [EmitClose code signal])"

text \<open>Everything that can happen to one runner object.\<close>

datatype runner_op =
    Run string string "string option"
  | Respond "json option"
  | Kill bool
  | StdoutLine string "json option"
  | StderrLine string
  | ChildError string
  | ChildClose "int option" "string option"
  | StdinEnded

fun runner_step :: "SeshatRunner \<Rightarrow> runner_op \<Rightarrow> SeshatRunner" where
  "runner_step r (Run cwd exe spawnThrows) =
     (case run cwd exe spawnThrows r of Inl e \<Rightarrow> r | Inr r' \<Rightarrow> r')"
| "runner_step r (Respond text) = r"
| "runner_step r (Kill delivered) = kill delivered r"
| "runner_step r (StdoutLine line parsed) = r"
| "runner_step r (StderrLine line) = r"
| "runner_step r (ChildError m) = r"
| "runner_step r (ChildClose code signal) = fst (childClose code signal r)"
| "runner_step r StdinEnded =
     (case process r of None \<Rightarrow> r | Some p \<Rightarrow> r\<lparr>process := Some (p\<lparr>stdin_writable := False\<rparr>)\<rparr>)"

definition runner_exec :: "runner_op list \<Rightarrow> SeshatRunner" where
  "runner_exec ops = foldl runner_step newSeshatRunner ops"

text \<open>
  The history of a session, most recent operation first. A handle exists from a spawn
  until the close notification; the handle has been signalled when a delivered kill
  reached it.
\<close>

fun handleExists :: "runner_op list \<Rightarrow> bool" where
  "handleExists [] = False"
| "handleExists (ChildClose code signal # h) = False"
| "handleExists (Run cwd exe None # h) = True"
| "handleExists (_ # h) = handleExists h"

fun handleSignalled :: "runner_op list \<Rightarrow> bool" where
  "handleSignalled [] = False"
| "handleSignalled (ChildClose code signal # h) = False"
| "handleSignalled (Run cwd exe None # h) = False"
| "handleSignalled (Kill True # h) = handleExists h"
| "handleSignalled (_ # h) = handleSignalled h"

text \<open>The reading of \<^verbatim>\<open>isRunning()\<close> in the specification: a handle exists and has not
  reported termination.\<close>

definition spec_isRunning :: "runner_op list \<Rightarrow> bool" where
  "spec_isRunning ops = handleExists (rev ops)"

section \<open>The commit workflow: \<^verbatim>\<open>SeshatController\<close>\<close>

subsection \<open>Values as the handlers read them\<close>

text \<open>
  \<^verbatim>\<open>BaseSeshatEvent\<close> of \<^verbatim>\<open>types.ts\<close> is an object with an \<^verbatim>\<open>event\<close> field and any other
  fields of type \<^verbatim>\<open>unknown\<close>; it closes the union \<^verbatim>\<open>SeshatEvent\<close>, and the runner casts
  whatever \<^verbatim>\<open>JSON.parse\<close> returned to that type. So an event is the list of properties of
  a parsed object, and a field the narrower interfaces declare (\<^verbatim>\<open>message: string\<close>,
  \<^verbatim>\<open>default?: boolean\<close>, \<^verbatim>\<open>choices: string[]\<close>) holds any value at run time. A value that
  may be \<^verbatim>\<open>undefined\<close> is a \<^typ>\<open>json option\<close>.
\<close>

type_synonym SeshatEvent = "(string \<times> json) list"

text \<open>\<^verbatim>\<open>event.key\<close>\<close>

definition field :: "SeshatEvent \<Rightarrow> string \<Rightarrow> json option" where
  "field event key = map_of event key"

text \<open>\<^verbatim>\<open>SeshatRunnerStatus\<close> of \<^verbatim>\<open>types.ts\<close>: \<^verbatim>\<open>'idle' | 'running' | 'success' | 'error'\<close>.\<close>

datatype SeshatRunnerStatus = StatusIdle | StatusRunning | StatusSuccess | StatusError

text \<open>\<^verbatim>\<open>PanelMessageFromWebview\<close>; the panel replaces an edited text that is not a string
  by the empty string before it fires the message.\<close>

datatype PanelMessageFromWebview = Confirm | Cancel | MessageEdited string

text \<open>What \<^verbatim>\<open>if (v)\<close>, \<^verbatim>\<open>!v\<close>, \<^verbatim>\<open>v ? a : b\<close> and \<^verbatim>\<open>v || d\<close> test.\<close>

fun truthy :: "json option \<Rightarrow> bool" where
  "truthy None = False"
| "truthy (Some JNull) = False"
| "truthy (Some (JBool b)) = b"
| "truthy (Some (JNumber n)) = (n \<noteq> ''0'')"
| "truthy (Some (JString t)) = (t \<noteq> [])"
| "truthy (Some (JArray xs)) = True"
| "truthy (Some (JObject kvs)) = True"

text \<open>
  The conversion to a string that a template literal and \<^verbatim>\<open>RegExp.prototype.test\<close>
  apply. An array is its elements joined by commas, \<^verbatim>\<open>null\<close> elements as empty text.
\<close>

fun toString :: "json \<Rightarrow> string" and joinElements :: "json list \<Rightarrow> string" where
  "toString JNull = ''null''"
| "toString (JBool b) = (if b then ''true'' else ''false'')"
| "toString (JNumber n) = n"
| "toString (JString t) = t"
| "toString (JArray xs) = joinElements xs"
| "toString (JObject kvs) = ''[object Object]''"
| "joinElements [] = []"
| "joinElements [x] = (case x of JNull \<Rightarrow> [] | _ \<Rightarrow> toString x)"
| "joinElements (x # y # ys) = (case x of JNull \<Rightarrow> [] | _ \<Rightarrow> toString x) @ '','' @ joinElements (y # ys)"

definition toStringU :: "json option \<Rightarrow> string" where
  "toStringU v = (case v of None \<Rightarrow> ''undefined'' | Some x \<Rightarrow> toString x)"

text \<open>\<^verbatim>\<open>v || d\<close> with a string literal \<open>d\<close>.\<close>

definition orElse :: "json option \<Rightarrow> string \<Rightarrow> json" where
  "orElse v d = (case v of None \<Rightarrow> JString d | Some x \<Rightarrow> if truthy (Some x) then x else JString d)"

text \<open>\<^verbatim>\<open>v.trim()\<close>: a \<^verbatim>\<open>TypeError\<close> on anything but a string.\<close>

definition trimOf :: "json option \<Rightarrow> js_error + string" where
  "trimOf v = (case v of Some (JString t) \<Rightarrow> Inr (trim t) | _ \<Rightarrow> Inl TypeError)"

subsection \<open>Display texts\<close>

definition yesLabel :: string where
  "yesLabel = ''Sim''"

definition noLabel :: string where
  "noLabel = ''N'' @ [CHR 0xE3] @ ''o''"

definition txtAlreadyCommitting :: string where
  "txtAlreadyCommitting = ''Seshat: j'' @ [CHR 0xE1] @ '' existe um commit em execu''
      @ [CHR 0xE7, CHR 0xE3] @ ''o.''"

definition txtConcluido :: string where
  "txtConcluido = ''Conclu'' @ [CHR 0xED] @ ''do''"

definition txtWorkspaceIndisponivel :: string where
  "txtWorkspaceIndisponivel = ''Workspace indispon'' @ [CHR 0xED] @ ''vel''"

definition txtWorkspaceNotFound :: string where
  "txtWorkspaceNotFound = ''Seshat: n'' @ [CHR 0xE3] @ ''o foi poss'' @ [CHR 0xED]
      @ ''vel localizar o workspace para git commit.''"

function decimal :: "nat \<Rightarrow> string" where
  "decimal n = (if n < 10 then [char_of (48 + n)] else decimal (n div 10) @ [char_of (48 + n mod 10)])"
  by pat_completeness auto
termination
  by (relation "measure id") auto

declare decimal.simps [simp del]

definition numberToString :: "int \<Rightarrow> string" where
  "numberToString i = (if i < 0 then ''-'' @ decimal (nat (- i)) else decimal (nat i))"

subsection \<open>The manual commit subprocess\<close>

record GitCommitFailure =
  message :: string
  stdout :: "string option"
  stderr :: "string option"
  code :: "int option"

text \<open>
  How the child started by \<^verbatim>\<open>runGitCommit\<close> ends: its \<^verbatim>\<open>'error'\<close> or its
  \<^verbatim>\<open>'close'\<close> notification, each with the output captured so far.
\<close>

datatype git_exit =
    GitChildError string string string
  | GitChildClose "int option" string string

text \<open>The settled promise of \<^verbatim>\<open>runGitCommit\<close>: \<open>Inl\<close> is the rejection.\<close>

definition runGitCommit :: "git_exit \<Rightarrow> GitCommitFailure + string \<times> string" where
  "runGitCommit x =
     (case x of
        GitChildError m out err \<Rightarrow>
          Inl \<lparr>message = m, stdout = Some out, stderr = Some err, code = None\<rparr>
      | GitChildClose c out err \<Rightarrow>
          if c = Some 0 then Inr (out, err)
          else Inl \<lparr>message = ''git commit finalizou com c'' @ [CHR 0xF3] @ ''digo ''
                        @ (case c of None \<Rightarrow> ''desconhecido'' | Some n \<Rightarrow> numberToString n),
                    stdout = Some out, stderr = Some err, code = c\<rparr>)"

text \<open>The rejection when \<^verbatim>\<open>spawn\<close> itself throws inside the promise executor.\<close>

definition spawnFailure :: "string \<Rightarrow> GitCommitFailure" where
  "spawnFailure m = \<lparr>message = m, stdout = None, stderr = None, code = None\<rparr>"

subsection \<open>State and effects\<close>

text \<open>
  What a handler does to the outside: calls on the display panel, host notifications and
  dialogs, calls on the runner and what they write, process spawns, timers. An argument
  that the source passes on as it found it in an event is a value, not a string.
  \<open>RunnerRespond\<close> is a call of \<^verbatim>\<open>runner.respond\<close>; each \<open>StdinWrite\<close> after it is a
  payload that call wrote. \<open>Rejected\<close> is the exception that ends an \<^verbatim>\<open>async\<close> handler
  whose promise nobody awaits.
\<close>

datatype effect =
    PanelCreate
  | PanelReveal bool
  | PanelReset
  | PanelSetStatus SeshatRunnerStatus json
  | PanelPostSeshatEvent SeshatEvent
  | PanelSetCommitMessage "json option" "json option"
  | PanelShowCommitActions bool "json option"
  | PanelPostSystemOutput string string
  | PanelDispose
  | ShowErrorMessage string
  | ShowInformationMessage string
  | ShowWarningMessage string
  | ShowModalWarning "json option" "string list"
  | ShowQuickPick "json list" "json option"
  | RunnerSpawn string "string list" string
  | RunnerRespond "json option"
  | StdinWrite string
  | RunnerKill
  | GitSpawn "string list" string
  | SchedulePanelReset nat
  | Rejected js_error

text \<open>A handler suspended at an \<^verbatim>\<open>await\<close>, with the locals it resumes with.\<close>

datatype continuation =
    AwaitModal SeshatEvent
  | AwaitQuickPick SeshatEvent
  | AwaitGitCommit string string

record SeshatController =
  panel :: bool
  runner :: "SeshatRunner option"
  runnerListeners :: bool
  workspacePath :: "string option"
  suggestedMessage :: "json option"
  editedMessage :: "json option"
  hasMessageReady :: bool
  waitingForCommitConfirmation :: bool
  replacingWithManualGitCommit :: bool
  sawTerminalEvent :: bool
  pending :: "continuation list"

definition newSeshatController :: SeshatController where
  "newSeshatController =
     \<lparr>panel = False, runner = None, runnerListeners = False, workspacePath = None,
      suggestedMessage = Some (JString []), editedMessage = Some (JString []),
      hasMessageReady = False,
      waitingForCommitConfirmation = False, replacingWithManualGitCommit = False,
      sawTerminalEvent = False, pending = []\<rparr>"

text \<open>\<^verbatim>\<open>this.panel?.f(...)\<close>\<close>

definition onPanel :: "SeshatController \<Rightarrow> effect \<Rightarrow> effect list" where
  "onPanel s e = (if panel s then [e] else [])"

text \<open>\<^verbatim>\<open>this.runner?.respond(text)\<close>\<close>

definition runnerRespond :: "SeshatController \<Rightarrow> json option \<Rightarrow> effect list" where
  "runnerRespond s text =
     (case runner s of
        None \<Rightarrow> []
      | Some r \<Rightarrow>
          RunnerRespond text
          # (case respond text r of
               Inr (written, payloads) \<Rightarrow> map StdinWrite payloads
             | Inl e \<Rightarrow> [Rejected e]))"

definition schedulePanelReset :: "effect list" where
  "schedulePanelReset = [SchedulePanelReset 1800]"

definition cleanupRunner :: "SeshatController \<Rightarrow> SeshatController" where
  "cleanupRunner s = s\<lparr>runner := None, runnerListeners := False\<rparr>"

definition stopRunner :: "SeshatController \<Rightarrow> SeshatController \<times> effect list" where
  "stopRunner s =
     (cleanupRunner s,
      (case runner s of None \<Rightarrow> [] | Some r \<Rightarrow> if isRunning r then [RunnerKill] else []))"

subsection \<open>Handlers\<close>

text \<open>
  \<^verbatim>\<open>startCommit\<close>. \<open>workspaceFolder\<close> is the path of the first workspace folder, if any;
  \<open>cfgExecutablePath\<close> and \<open>autoOpenPanel\<close> are the configuration values; \<open>spawnThrows\<close>
  is as in \<open>run\<close>.
\<close>

definition startCommit ::
  "string option \<Rightarrow> string \<Rightarrow> bool \<Rightarrow> string option \<Rightarrow> SeshatController \<Rightarrow> SeshatController \<times> effect list" where
  "startCommit workspaceFolder cfgExecutablePath autoOpenPanel spawnThrows s =
     (case workspaceFolder of
        None \<Rightarrow> (s, [ShowErrorMessage ''Seshat: abra um workspace antes de executar o commit.''])
      | Some fsPath \<Rightarrow>
          if (case runner s of None \<Rightarrow> False | Some r \<Rightarrow> isRunning r)
          then (s, onPanel s (PanelReveal True) @ [ShowInformationMessage txtAlreadyCommitting])
          else
            let executablePath = (if cfgExecutablePath = [] then ''seshat'' else cfgExecutablePath);
                s1 = s\<lparr>workspacePath := Some fsPath, panel := True,
                       suggestedMessage := Some (JString []), editedMessage := Some (JString []),
                       hasMessageReady := False,
                       waitingForCommitConfirmation := False,
                       replacingWithManualGitCommit := False, sawTerminalEvent := False,
                       runner := Some newSeshatRunner, runnerListeners := True\<rparr>;
                e1 = (if panel s then [] else [PanelCreate])
                     @ [PanelReveal autoOpenPanel, PanelReset,
                        PanelSetStatus StatusRunning (JString ''Executando'')]
            in (case run fsPath executablePath spawnThrows newSeshatRunner of
                  Inr r \<Rightarrow>
                    (s1\<lparr>runner := Some r\<rparr>,
                     e1 @ [RunnerSpawn executablePath [''commit'', ''--format'', ''json''] fsPath,
                           PanelPostSeshatEvent
                             [(''event'', JString ''step''),
                              (''message'',
                               JString (''Executando: '' @ executablePath @ '' commit --format json''))]])
                | Inl m \<Rightarrow>
                    (cleanupRunner s1,
                     e1 @ [RunnerSpawn executablePath [''commit'', ''--format'', ''json''] fsPath,
                           PanelSetStatus StatusError (JString ''Falha ao iniciar''),
                           ShowErrorMessage (''Seshat: falha ao iniciar processo ('' @ m @ '').'')])))"

definition handleRunnerClose :: "int option \<Rightarrow> SeshatController \<Rightarrow> SeshatController \<times> effect list" where
  "handleRunnerClose exitCode s =
     (let cancelledForEditedMessage = replacingWithManualGitCommit s
      in (cleanupRunner (s\<lparr>waitingForCommitConfirmation := False\<rparr>),
          (if \<not> sawTerminalEvent s \<and> \<not> cancelledForEditedMessage
           then (if exitCode = Some 0
                 then onPanel s (PanelSetStatus StatusSuccess (JString txtConcluido))
                 else onPanel s (PanelSetStatus StatusError (JString ''Processo finalizado com erro'')))
           else [])
          @ onPanel s (PanelShowCommitActions False None)))"

definition handleMessageReady :: "SeshatEvent \<Rightarrow> SeshatController \<Rightarrow> SeshatController \<times> effect list" where
  "handleMessageReady event s =
     (s\<lparr>suggestedMessage := field event ''message'', editedMessage := field event ''message'',
        hasMessageReady := True\<rparr>,
      onPanel s (PanelSetCommitMessage (field event ''message'') (field event ''message'')))"

text \<open>\<^verbatim>\<open>handleConfirmNeeded\<close> up to its \<^verbatim>\<open>await\<close>, and from there on with the label the
  modal returned (\<open>None\<close> when it was dismissed).\<close>

definition handleConfirmNeeded ::
  "SeshatEvent \<Rightarrow> SeshatController \<Rightarrow> SeshatController \<times> effect list" where
  "handleConfirmNeeded event s =
     (let isCommitConfirmation =
            (hasMessageReady s \<and> regex_commit_i_test (toStringU (field event ''message'')))
      in if isCommitConfirmation
         then (s\<lparr>waitingForCommitConfirmation := True\<rparr>,
               onPanel s (PanelShowCommitActions True (field event ''message'')))
         else (s\<lparr>pending := pending s @ [AwaitModal event]\<rparr>,
               [ShowModalWarning (field event ''message'') [yesLabel, noLabel]]))"

definition confirmAnswered ::
  "SeshatEvent \<Rightarrow> string option \<Rightarrow> SeshatController \<Rightarrow> SeshatController \<times> effect list" where
  "confirmAnswered event choice s =
     (if choice = Some yesLabel then (s, runnerRespond s (Some (JString ''y'')))
      else if choice = Some noLabel then (s, runnerRespond s (Some (JString ''n'')))
      else (s, runnerRespond s
                 (Some (JString (if truthy (field event ''default'') then ''y'' else ''n'')))))"

text \<open>
  \<^verbatim>\<open>handleChoiceNeeded\<close> up to its \<^verbatim>\<open>await\<close>. Past \<^verbatim>\<open>!event.choices\<close>, a value that is
  not an array has no \<^verbatim>\<open>map\<close> to call, which is a \<^verbatim>\<open>TypeError\<close>, unless it is an object
  whose \<^verbatim>\<open>length\<close> is 0, which returns like the empty array.
\<close>

definition handleChoiceNeeded ::
  "SeshatEvent \<Rightarrow> SeshatController \<Rightarrow> SeshatController \<times> effect list" where
  "handleChoiceNeeded event s =
     (if \<not> truthy (field event ''choices'') then (s, [])
      else (case field event ''choices'' of
              Some (JArray cs) \<Rightarrow>
                if cs = [] then (s, [])
                else (s\<lparr>pending := pending s @ [AwaitQuickPick event]\<rparr>,
                      [ShowQuickPick cs (field event ''message'')])
            | Some (JObject kvs) \<Rightarrow>
                if map_of kvs ''length'' = Some (JNumber ''0'') then (s, [])
                else (s, [Rejected TypeError])
            | _ \<Rightarrow> (s, [Rejected TypeError])))"

text \<open>\<^verbatim>\<open>event.choices[0]\<close>; the handler only gets to it with a non-empty array.\<close>

definition firstChoice :: "SeshatEvent \<Rightarrow> json option" where
  "firstChoice event =
     (case field event ''choices'' of Some (JArray (c # cs)) \<Rightarrow> Some c | _ \<Rightarrow> None)"

text \<open>The rest of \<^verbatim>\<open>handleChoiceNeeded\<close>, with the label of the picked item (\<open>None\<close> when
  the list was dismissed).\<close>

definition choiceAnswered ::
  "SeshatEvent \<Rightarrow> json option \<Rightarrow> SeshatController \<Rightarrow> SeshatController \<times> effect list" where
  "choiceAnswered event selected s =
     (case selected of
        Some label \<Rightarrow> (s, runnerRespond s (Some label))
      | None \<Rightarrow>
          if truthy (field event ''default'') then (s, runnerRespond s (field event ''default''))
          else (s, runnerRespond s (firstChoice event)))"

definition handleCommitted :: "SeshatEvent \<Rightarrow> SeshatController \<Rightarrow> SeshatController \<times> effect list" where
  "handleCommitted event s =
     (s\<lparr>sawTerminalEvent := True, waitingForCommitConfirmation := False, hasMessageReady := False\<rparr>,
      onPanel s (PanelShowCommitActions False None)
      @ onPanel s (PanelSetStatus StatusSuccess (orElse (field event ''summary'') ''Commit realizado''))
      @ [ShowInformationMessage
           (''Seshat: '' @ toString (orElse (field event ''summary'') ''commit realizado com sucesso.''))]
      @ schedulePanelReset)"

definition handleCancelled :: "SeshatEvent \<Rightarrow> SeshatController \<Rightarrow> SeshatController \<times> effect list" where
  "handleCancelled event s =
     (s\<lparr>sawTerminalEvent := True, waitingForCommitConfirmation := False, hasMessageReady := False\<rparr>,
      onPanel s (PanelShowCommitActions False None)
      @ (if replacingWithManualGitCommit s then []
         else onPanel s (PanelSetStatus StatusError (JString ''Commit cancelado''))
              @ [ShowWarningMessage
                   (''Seshat: commit cancelado (''
                    @ (case field event ''reason'' of
                         Some (JString r) \<Rightarrow> r
                       | _ \<Rightarrow> ''sem motivo informado'')
                    @ '').'')]))"

text \<open>\<^verbatim>\<open>handleSeshatEvent\<close>: the \<^verbatim>\<open>switch\<close> compares \<^verbatim>\<open>event.event\<close> with \<^verbatim>\<open>===\<close>.\<close>

definition handleSeshatEvent :: "SeshatEvent \<Rightarrow> SeshatController \<Rightarrow> SeshatController \<times> effect list" where
  "handleSeshatEvent event s =
     (let kind = field event ''event'';
          (s', es) =
            (if kind = Some (JString ''message_ready'') then handleMessageReady event s
             else if kind = Some (JString ''confirm_needed'') then handleConfirmNeeded event s
             else if kind = Some (JString ''choice_needed'') then handleChoiceNeeded event s
             else if kind = Some (JString ''committed'') then handleCommitted event s
             else if kind = Some (JString ''cancelled'') then handleCancelled event s
             else if kind = Some (JString ''error'')
             then (s, if \<not> replacingWithManualGitCommit s
                      then onPanel s (PanelSetStatus StatusError (orElse (field event ''message'') ''Erro''))
                           @ [ShowErrorMessage
                                (''Seshat: '' @ toString (orElse (field event ''message'') ''erro inesperado.''))]
                      else [])
             else (s, []))
      in (s', onPanel s (PanelPostSeshatEvent event) @ es))"

text \<open>
  The rest of \<^verbatim>\<open>handleCommitConfirmation\<close> once the promise of \<^verbatim>\<open>runGitCommit\<close> has
  settled: the \<^verbatim>\<open>try\<close> body after the \<^verbatim>\<open>await\<close>, or the \<^verbatim>\<open>catch\<close> block, and then
  \<^verbatim>\<open>finally\<close>.
\<close>

definition gitCommitSettled ::
  "GitCommitFailure + string \<times> string \<Rightarrow> SeshatController \<Rightarrow> SeshatController \<times> effect list" where
  "gitCommitSettled result s =
     (case result of
        Inr (out, err) \<Rightarrow>
          (let output = joinNonEmpty out err
           in (s\<lparr>sawTerminalEvent := True, replacingWithManualGitCommit := False\<rparr>,
               (if output \<noteq> [] then onPanel s (PanelPostSystemOutput ''git commit'' output) else [])
               @ onPanel s (PanelSetStatus StatusSuccess (JString ''Commit realizado com mensagem editada''))
               @ [ShowInformationMessage ''Seshat: commit realizado com a mensagem editada.'']
               @ schedulePanelReset))
      | Inl failure \<Rightarrow>
          (let err = (case stderr failure of None \<Rightarrow> [] | Some e \<Rightarrow> if e = [] then [] else trim e);
               out = (case stdout failure of None \<Rightarrow> [] | Some e \<Rightarrow> if e = [] then [] else trim e);
               combined = joinNonEmpty out err
           in (s\<lparr>replacingWithManualGitCommit := False\<rparr>,
               (if combined \<noteq> [] then onPanel s (PanelPostSystemOutput ''git commit (erro)'' combined)
                else [])
               @ onPanel s (PanelSetStatus StatusError (JString ''Falha ao executar git commit''))
               @ [ShowErrorMessage (''Seshat: falha no git commit ('' @ message failure @ '').'')])))"

text \<open>
  \<^verbatim>\<open>handleCommitConfirmation\<close> up to its \<^verbatim>\<open>await\<close>. The two \<^verbatim>\<open>trim()\<close> calls come
  first and throw on a message that is not a string, before anything is changed or sent.
  \<open>GitSpawn\<close> is the call \<^verbatim>\<open>spawn('git', ['commit', '-m', message], {cwd})\<close>. When that
  call throws (\<open>spawnThrows\<close>), the promise is rejected at once and \<^verbatim>\<open>catch\<close> and
  \<^verbatim>\<open>finally\<close> run before any other event is taken; otherwise the handler waits for the
  child. \<^verbatim>\<open>!this.workspacePath\<close> holds for \<^verbatim>\<open>null\<close> and for the empty string.
\<close>

definition handleCommitConfirmation ::
  "string option \<Rightarrow> SeshatController \<Rightarrow> SeshatController \<times> effect list" where
  "handleCommitConfirmation spawnThrows s =
     (case trimOf (editedMessage s) of
        Inl e \<Rightarrow> (s, [Rejected e])
      | Inr edited \<Rightarrow>
     (case trimOf (suggestedMessage s) of
        Inl e \<Rightarrow> (s, [Rejected e])
      | Inr original \<Rightarrow>
     (let s1 = s\<lparr>waitingForCommitConfirmation := False, hasMessageReady := False\<rparr>;
          e1 = onPanel s (PanelShowCommitActions False None)
      in if edited = [] \<or> edited = original then (s1, e1 @ runnerRespond s1 (Some (JString ''y'')))
         else
           let s2 = s1\<lparr>replacingWithManualGitCommit := True\<rparr>;
               e2 = e1 @ runnerRespond s2 (Some (JString ''n''))
           in (case (if workspacePath s2 = Some [] then None else workspacePath s2) of
                 None \<Rightarrow>
                   (s2\<lparr>replacingWithManualGitCommit := False\<rparr>,
                    e2 @ onPanel s2 (PanelSetStatus StatusError (JString txtWorkspaceIndisponivel))
                       @ [ShowErrorMessage txtWorkspaceNotFound])
               | Some cwd \<Rightarrow>
                   (let e3 = e2 @ onPanel s2 (PanelSetStatus StatusRunning
                                                (JString ''Aplicando mensagem editada com git commit''))
                                @ [GitSpawn [''commit'', ''-m'', edited] cwd]
                    in case spawnThrows of
                         None \<Rightarrow> (s2\<lparr>pending := pending s2 @ [AwaitGitCommit cwd edited]\<rparr>, e3)
                       | Some m \<Rightarrow>
                           (let (s3, e4) = gitCommitSettled (Inl (spawnFailure m)) s2
                            in (s3, e3 @ e4)))))))"

definition handlePanelMessage ::
  "PanelMessageFromWebview \<Rightarrow> string option \<Rightarrow> SeshatController \<Rightarrow> SeshatController \<times> effect list" where
  "handlePanelMessage msg spawnThrows s =
     (case msg of
        MessageEdited text \<Rightarrow> (s\<lparr>editedMessage := Some (JString text)\<rparr>, [])
      | Cancel \<Rightarrow>
          if \<not> waitingForCommitConfirmation s then (s, [])
          else (s\<lparr>waitingForCommitConfirmation := False, hasMessageReady := False\<rparr>,
                onPanel s (PanelShowCommitActions False None) @ runnerRespond s (Some (JString ''n'')))
      | Confirm \<Rightarrow>
          if \<not> waitingForCommitConfirmation s then (s, [])
          else handleCommitConfirmation spawnThrows s)"

text \<open>The panel's \<^verbatim>\<open>onDidDispose\<close> callback, and \<^verbatim>\<open>dispose\<close> of the controller.\<close>

definition panelDisposed :: "SeshatController \<Rightarrow> SeshatController \<times> effect list" where
  "panelDisposed s = stopRunner (s\<lparr>panel := False\<rparr>)"

definition dispose :: "SeshatController \<Rightarrow> SeshatController \<times> effect list" where
  "dispose s =
     (let (s1, e1) = stopRunner s
      in (s1\<lparr>panel := False\<rparr>, e1 @ onPanel s1 PanelDispose))"

subsection \<open>The event loop\<close>

text \<open>
  Everything the host can deliver to the controller, one at a time: the command, the
  notifications of the attached runner, the end of the runner's input stream, operator
  actions from the panel, disposal, and the settling of an awaited dialog or manual commit
  (by its position among the suspended handlers). The second argument of \<open>PanelMessage\<close>
  is \<open>spawnThrows\<close> of \<open>handleCommitConfirmation\<close>.
\<close>

datatype input =
    StartCommit "string option" string bool "string option"
  | RunnerEvent SeshatEvent
  | RunnerStderr string
  | RunnerClose "int option" "string option"
  | RunnerError string
  | RunnerStdinEnded
  | PanelMessage PanelMessageFromWebview "string option"
  | PanelDisposed
  | Dispose
  | ModalAnswered nat "string option"
  | ChoiceAnswered nat "json option"
  | GitCommitExited nat git_exit

definition attached :: "SeshatController \<Rightarrow> bool" where
  "attached s = (runner s \<noteq> None \<and> runnerListeners s)"

definition suspended :: "SeshatController \<Rightarrow> nat \<Rightarrow> continuation option" where
  "suspended s i = (if i < length (pending s) then Some (pending s ! i) else None)"

definition resume :: "nat \<Rightarrow> SeshatController \<Rightarrow> SeshatController" where
  "resume i s = s\<lparr>pending := take i (pending s) @ drop (Suc i) (pending s)\<rparr>"

fun step :: "SeshatController \<Rightarrow> input \<Rightarrow> SeshatController \<times> effect list" where
  "step s (StartCommit workspaceFolder cfgExecutablePath autoOpenPanel spawnThrows) =
     startCommit workspaceFolder cfgExecutablePath autoOpenPanel spawnThrows s"
| "step s (RunnerEvent event) = (if attached s then handleSeshatEvent event s else (s, []))"
| "step s (RunnerStderr line) =
     (if attached s
      then (s, onPanel s (PanelPostSeshatEvent [(''event'', JString ''warning''), (''message'', JString line)]))
      else (s, []))"
| "step s (RunnerClose exitCode signal) =
     (if attached s
      then handleRunnerClose exitCode (s\<lparr>runner := map_option (\<lambda>r. fst (childClose exitCode signal r)) (runner s)\<rparr>)
      else (s, []))"
| "step s (RunnerError m) =
     (if attached s
      then (s, onPanel s (PanelSetStatus StatusError (JString ''Erro no processo''))
               @ [ShowErrorMessage (''Seshat: erro no processo ('' @ m @ '').'')])
      else (s, []))"
| "step s RunnerStdinEnded =
     (s\<lparr>runner := map_option (\<lambda>r. runner_step r StdinEnded) (runner s)\<rparr>, [])"
| "step s (PanelMessage msg spawnThrows) =
     (if panel s then handlePanelMessage msg spawnThrows s else (s, []))"
| "step s PanelDisposed = (if panel s then panelDisposed s else (s, []))"
| "step s Dispose = dispose s"
| "step s (ModalAnswered i choice) =
     (case suspended s i of
        Some (AwaitModal event) \<Rightarrow> confirmAnswered event choice (resume i s)
      | _ \<Rightarrow> (s, []))"
| "step s (ChoiceAnswered i selected) =
     (case suspended s i of
        Some (AwaitQuickPick event) \<Rightarrow> choiceAnswered event selected (resume i s)
      | _ \<Rightarrow> (s, []))"
| "step s (GitCommitExited i x) =
     (case suspended s i of
        Some (AwaitGitCommit cwd edited) \<Rightarrow> gitCommitSettled (runGitCommit x) (resume i s)
      | _ \<Rightarrow> (s, []))"

definition execAll :: "input list \<Rightarrow> SeshatController" where
  "execAll ins = foldl (\<lambda>s i. fst (step s i)) newSeshatController ins"

subsection \<open>Reading a handler's effects\<close>

fun responses :: "effect list \<Rightarrow> json option list" where
  "responses [] = []"
| "responses (RunnerRespond text # es) = text # responses es"
| "responses (_ # es) = responses es"

fun stdinWrites :: "effect list \<Rightarrow> string list" where
  "stdinWrites [] = []"
| "stdinWrites (StdinWrite payload # es) = payload # stdinWrites es"
| "stdinWrites (_ # es) = stdinWrites es"

fun gitSpawns :: "effect list \<Rightarrow> (string list \<times> string) list" where
  "gitSpawns [] = []"
| "gitSpawns (GitSpawn args cwd # es) = (args, cwd) # gitSpawns es"
| "gitSpawns (_ # es) = gitSpawns es"

fun statuses :: "effect list \<Rightarrow> SeshatRunnerStatus list" where
  "statuses [] = []"
| "statuses (PanelSetStatus st text # es) = st # statuses es"
| "statuses (_ # es) = statuses es"

fun commitActions :: "effect list \<Rightarrow> (bool \<times> json option) list" where
  "commitActions [] = []"
| "commitActions (PanelShowCommitActions visible prompt # es) = (visible, prompt) # commitActions es"
| "commitActions (_ # es) = commitActions es"

text \<open>The calls that reach a subprocess, in order: answers to the tool and spawns of the
  manual commit.\<close>

fun processCalls :: "effect list \<Rightarrow> effect list" where
  "processCalls [] = []"
| "processCalls (RunnerRespond text # es) = RunnerRespond text # processCalls es"
| "processCalls (GitSpawn args cwd # es) = GitSpawn args cwd # processCalls es"
| "processCalls (_ # es) = processCalls es"

fun systemOutputs :: "effect list \<Rightarrow> (string \<times> string) list" where
  "systemOutputs [] = []"
| "systemOutputs (PanelPostSystemOutput title output # es) = (title, output) # systemOutputs es"
| "systemOutputs (_ # es) = systemOutputs es"

fun quickPicks :: "effect list \<Rightarrow> (json list \<times> json option) list" where
  "quickPicks [] = []"
| "quickPicks (ShowQuickPick picks placeHolder # es) = (picks, placeHolder) # quickPicks es"
| "quickPicks (_ # es) = quickPicks es"

subsection \<open>What holds between two inputs\<close>

fun awaitsGit :: "continuation \<Rightarrow> bool" where
  "awaitsGit (AwaitGitCommit cwd edited) = True"
| "awaitsGit _ = False"

text \<open>
  An attached runner is live, has its listeners and a panel to report to, and was started
  in a workspace; the commit step is only awaited with a proposed message, and with a
  runner as long as the panel is open; the manual fallback is only in progress while a
  manual commit is awaited.
\<close>

definition consistent :: "SeshatController \<Rightarrow> bool" where
  "consistent s =
     ((\<forall>r. runner s = Some r \<longrightarrow> isRunning r \<and> panel s \<and> runnerListeners s \<and> workspacePath s \<noteq> None)
      \<and> (waitingForCommitConfirmation s \<longrightarrow> hasMessageReady s \<and> workspacePath s \<noteq> None)
      \<and> (waitingForCommitConfirmation s \<and> panel s \<longrightarrow> runner s \<noteq> None)
      \<and> (replacingWithManualGitCommit s \<longrightarrow> filter awaitsGit (pending s) \<noteq> []))"

text \<open>The reading of the discriminator in the specification: a \<^verbatim>\<open>kind\<close> or an
  \<^verbatim>\<open>event\<close> field.\<close>

fun spec_hasDiscriminator :: "json \<Rightarrow> bool" where
  "spec_hasDiscriminator (JObject kvs) = (''kind'' \<in> fst ` set kvs \<or> ''event'' \<in> fst ` set kvs)"
| "spec_hasDiscriminator _ = False"

text \<open>Whether \<^verbatim>\<open>respond\<close> on the attached runner gets through to the input stream.\<close>

definition stdinOpen :: "SeshatController \<Rightarrow> bool" where
  "stdinOpen s =
     (case runner s of
        None \<Rightarrow> False
      | Some r \<Rightarrow> (case process r of None \<Rightarrow> False | Some p \<Rightarrow> \<not> killed p \<and> stdin_writable p))"

text \<open>\<^verbatim>\<open>event.event === kind\<close>\<close>

definition eventIs :: "SeshatEvent \<Rightarrow> string \<Rightarrow> bool" where
  "eventIs event kind = (field event ''event'' = Some (JString kind))"

text \<open>The inputs that set \<^verbatim>\<open>sawTerminalEvent\<close>: a \<^verbatim>\<open>committed\<close> or \<^verbatim>\<open>cancelled\<close> event,
  and a manual commit that exits with code 0.\<close>

fun marksTerminal :: "input \<Rightarrow> bool" where
  "marksTerminal (RunnerEvent event) = (eventIs event ''committed'' \<or> eventIs event ''cancelled'')"
| "marksTerminal (GitCommitExited i (GitChildClose exitCode out err)) = (exitCode = Some 0)"
| "marksTerminal _ = False"

text \<open>The reading of a seen terminal event in the specification: a \<^verbatim>\<open>committed\<close> or
  \<^verbatim>\<open>cancelled\<close> event among the inputs.\<close>

fun spec_isTerminalEvent :: "input \<Rightarrow> bool" where
  "spec_isTerminalEvent (RunnerEvent event) = (eventIs event ''committed'' \<or> eventIs event ''cancelled'')"
| "spec_isTerminalEvent _ = False"

definition spec_terminalEventSeen :: "input list \<Rightarrow> bool" where
  "spec_terminalEventSeen ins = list_ex spec_isTerminalEvent ins"





section \<open>The transport decodes lines and reports liveness\<close>

lemma dropWhile_all_iff: "(\<forall>c \<in> set (dropWhile P s). P c) \<longleftrightarrow> (\<forall>c \<in> set s. P c)"
proof
  assume h: "\<forall>c \<in> set (dropWhile P s). P c"
  have "dropWhile P s = []"
  proof (rule ccontr)
    assume ne: "dropWhile P s \<noteq> []"
    then have "\<not> P (hd (dropWhile P s))" by (rule hd_dropWhile)
    moreover have "hd (dropWhile P s) \<in> set (dropWhile P s)" using ne by (rule hd_in_set)
    ultimately show False using h by blast
  qed
  then show "\<forall>c \<in> set s. P c" by (simp add: dropWhile_eq_Nil_conv)
next
  assume "\<forall>c \<in> set s. P c"
  then show "\<forall>c \<in> set (dropWhile P s). P c" using set_dropWhileD by fast
qed

lemma trim_empty_iff: "trim s = [] \<longleftrightarrow> (\<forall>c \<in> set s. isWhiteSpace c)"
  by (simp add: trim_def dropWhile_eq_Nil_conv dropWhile_all_iff)

text \<open>
  C6, as the code has it. A line of the subprocess's standard output that is blank (only
  white space) produces no event. A non-blank line whose parse is an object with an
  \<^verbatim>\<open>event\<close> field is emitted as that object, unmodified. Every other non-blank line is
  emitted as an \<^verbatim>\<open>info\<close> event whose message is the trimmed line: a line that does not
  parse, a parse that is not an object, and an object without an \<^verbatim>\<open>event\<close> field,
  whatever else it carries.
\<close>

theorem stdoutLine_decoding:
  "((\<forall>c \<in> set line. isWhiteSpace c) \<longrightarrow> stdoutLine line parsed = []) \<and>
   ((\<exists>c \<in> set line. \<not> isWhiteSpace c) \<and> parsed = Some (JObject kvs) \<and> ''event'' \<in> fst ` set kvs
      \<longrightarrow> stdoutLine line parsed = [EmitEvent (JObject kvs)]) \<and>
   ((\<exists>c \<in> set line. \<not> isWhiteSpace c) \<and> parsed = Some (JObject kvs) \<and> ''event'' \<notin> fst ` set kvs
      \<longrightarrow> stdoutLine line parsed = [EmitEvent (infoFallback (trim line))]) \<and>
   ((\<exists>c \<in> set line. \<not> isWhiteSpace c) \<and> (parsed = None \<or> (\<exists>v. parsed = Some v \<and> \<not> isObjectWithEvent v))
      \<longrightarrow> stdoutLine line parsed = [EmitEvent (infoFallback (trim line))])"
proof -
  have blank: "(\<forall>c \<in> set line. isWhiteSpace c) \<Longrightarrow> trim line = []"
    by (simp add: trim_empty_iff)
  have nonblank: "(\<exists>c \<in> set line. \<not> isWhiteSpace c) \<Longrightarrow> trim line \<noteq> []"
    by (simp add: trim_empty_iff)
  show ?thesis
    using blank nonblank by (auto simp: stdoutLine_def Let_def)
qed

text \<open>C6, the decoding at four concrete lines: blank, an object with \<^verbatim>\<open>event\<close>, an
  object without it, and text that is not JSON.\<close>

theorem stdoutLine_decoding_witness:
  \<open>stdoutLine ''   '' None = [] \<and>
   stdoutLine '' {"event":"step"} '' (Some (JObject [(''event'', JString ''step'')]))
     = [EmitEvent (JObject [(''event'', JString ''step'')])] \<and>
   stdoutLine ''{"message":"hi"}'' (Some (JObject [(''message'', JString ''hi'')]))
     = [EmitEvent (infoFallback ''{"message":"hi"}'')] \<and>
   stdoutLine ''not json '' None = [EmitEvent (infoFallback ''not json'')]\<close>
  using stdoutLine_decoding [of "''   ''" None]
    stdoutLine_decoding [of \<open>'' {"event":"step"} ''\<close> "Some (JObject [(''event'', JString ''step'')])" "[(''event'', JString ''step'')]"]
    stdoutLine_decoding [of \<open>''{"message":"hi"}''\<close> "Some (JObject [(''message'', JString ''hi'')])" "[(''message'', JString ''hi'')]"]
    stdoutLine_decoding [of "''not json ''" None]
  by (simp add: isWhiteSpace_def trim_def)

text \<open>
  C6 as stated also takes a \<^verbatim>\<open>kind\<close> field for a discriminator and has such an object
  emitted unmodified. The handler only looks for \<^verbatim>\<open>event\<close>: the object below carries
  \<^verbatim>\<open>kind\<close> and is rewrapped as \<^verbatim>\<open>info\<close>.
\<close>

theorem stdoutLine_kind_counterexample:
  \<open>spec_hasDiscriminator (JObject [(''kind'', JString ''step''), (''message'', JString ''hi'')]) \<and>
   stdoutLine ''{"kind":"step","message":"hi"}''
       (Some (JObject [(''kind'', JString ''step''), (''message'', JString ''hi'')]))
     = [EmitEvent (JObject [(''event'', JString ''info''),
                            (''message'', JString ''{"kind":"step","message":"hi"}'')])] \<and>
   stdoutLine ''{"kind":"step","message":"hi"}''
       (Some (JObject [(''kind'', JString ''step''), (''message'', JString ''hi'')]))
     \<noteq> [EmitEvent (JObject [(''kind'', JString ''step''), (''message'', JString ''hi'')])]\<close>
  by (simp add: stdoutLine_def infoFallback_def trim_def isWhiteSpace_def)

lemma runner_exec_snoc: "runner_exec (ops @ [x]) = runner_step (runner_exec ops) x"
  by (simp add: runner_exec_def)

lemma runner_exec_history:
  "(process (runner_exec ops) \<noteq> None \<longleftrightarrow> handleExists (rev ops)) \<and>
   ((\<exists>p. process (runner_exec ops) = Some p \<and> killed p) \<longleftrightarrow> handleSignalled (rev ops))"
proof (induction ops rule: rev_induct)
  case Nil
  show ?case by (simp add: runner_exec_def newSeshatRunner_def)
next
  case (snoc x ops)
  show ?case
  proof (cases x)
    case (Run cwd exe st)
    then show ?thesis using snoc
      by (cases st) (auto simp: runner_exec_snoc run_def isRunning_def split: option.splits)
  next
    case (Kill d)
    then show ?thesis using snoc
      by (cases d) (auto simp: runner_exec_snoc kill_def split: option.splits)
  next
    case (ChildClose c signal)
    then show ?thesis by (simp add: runner_exec_snoc childClose_def cleanupReaders_def)
  next
    case StdinEnded
    then show ?thesis using snoc
      by (auto simp: runner_exec_snoc split: option.splits)
  qed (use snoc in \<open>simp_all add: runner_exec_snoc\<close>)
qed

text \<open>
  C7, as the code has it. After any sequence of operations on a runner, \<^verbatim>\<open>isRunning()\<close>
  is true exactly when a handle exists (a spawn happened and no close notification came
  since) and no delivered \<^verbatim>\<open>kill()\<close> has signalled that handle.
\<close>

theorem isRunning_history:
  "isRunning (runner_exec ops) \<longleftrightarrow> handleExists (rev ops) \<and> \<not> handleSignalled (rev ops)"
  using runner_exec_history [of ops] by (auto simp: isRunning_def split: option.splits)

text \<open>C7 at four histories: running after a spawn, not running after a delivered kill,
  still running after an undelivered one, not running after close.\<close>

theorem isRunning_history_witness:
  "isRunning (runner_exec [Run ''/w'' ''seshat'' None, Respond (Some (JString ''y''))]) \<and>
   \<not> isRunning (runner_exec [Run ''/w'' ''seshat'' None, Kill True]) \<and>
   isRunning (runner_exec [Run ''/w'' ''seshat'' None, Kill False]) \<and>
   \<not> isRunning (runner_exec [Run ''/w'' ''seshat'' None, ChildClose (Some 0) None])"
  using isRunning_history [of "[Run ''/w'' ''seshat'' None, Respond (Some (JString ''y''))]"]
    isRunning_history [of "[Run ''/w'' ''seshat'' None, Kill True]"]
    isRunning_history [of "[Run ''/w'' ''seshat'' None, Kill False]"]
    isRunning_history [of "[Run ''/w'' ''seshat'' None, ChildClose (Some 0) None]"]
  by simp

text \<open>
  C7 as stated has \<^verbatim>\<open>isRunning()\<close> still true after \<^verbatim>\<open>kill()\<close> and before the close
  notification. After a spawn and a delivered kill the handle is there, no close has been
  reported, and \<^verbatim>\<open>isRunning()\<close> is false.
\<close>

theorem isRunning_after_kill_counterexample:
  "spec_isRunning [Run ''/w'' ''seshat'' None, Kill True] \<and>
   process (runner_exec [Run ''/w'' ''seshat'' None, Kill True]) \<noteq> None \<and>
   \<not> isRunning (runner_exec [Run ''/w'' ''seshat'' None, Kill True])"
  by (simp add: spec_isRunning_def runner_exec_def run_def isRunning_def kill_def newSeshatRunner_def)


section \<open>The controller between two inputs\<close>

lemma execAll_snoc: "execAll (ins @ [x]) = fst (step (execAll ins) x)"
  by (simp add: execAll_def)

lemma filter_resume:
  assumes "i < length xs" "\<not> P (xs ! i)"
  shows "filter P (take i xs @ drop (Suc i) xs) = filter P xs"
proof -
  have "xs = take i xs @ xs ! i # drop (Suc i) xs" using assms(1) by (rule id_take_nth_drop)
  then have "filter P xs = filter P (take i xs @ xs ! i # drop (Suc i) xs)" by simp
  then show ?thesis using assms(2) by simp
qed

lemmas handler_defs = startCommit_def handleRunnerClose_def handleMessageReady_def
  handleConfirmNeeded_def confirmAnswered_def handleChoiceNeeded_def choiceAnswered_def
  handleCommitted_def handleCancelled_def handleSeshatEvent_def gitCommitSettled_def
  handleCommitConfirmation_def handlePanelMessage_def panelDisposed_def dispose_def trimOf_def
  eventIs_def
  stopRunner_def cleanupRunner_def attached_def suspended_def resume_def

lemma consistent_resume:
  assumes "consistent s" "suspended s i = Some c" "\<not> awaitsGit c"
  shows "consistent (resume i s)"
proof -
  have "i < length (pending s)" "\<not> awaitsGit (pending s ! i)"
    using assms(2,3) by (auto simp: suspended_def split: if_splits)
  then have "filter awaitsGit (pending (resume i s)) = filter awaitsGit (pending s)"
    by (simp add: resume_def filter_resume del: filter_append)
  then show ?thesis using assms(1) by (simp add: consistent_def resume_def)
qed

lemma consistent_step: "consistent s \<Longrightarrow> consistent (fst (step s x))"
proof (cases x)
  case (StartCommit wf cfg ao st)
  assume "consistent s"
  then show ?thesis unfolding StartCommit
    by (auto simp: consistent_def handler_defs run_def isRunning_def newSeshatRunner_def Let_def
        split: option.splits sum.splits if_splits)
next
  case (RunnerEvent e)
  assume "consistent s"
  then show ?thesis unfolding RunnerEvent
    by (auto simp: consistent_def handler_defs Let_def split: option.splits if_splits json.splits)
next
  case (RunnerStderr l)
  assume "consistent s"
  then show ?thesis unfolding RunnerStderr by simp
next
  case (RunnerClose c sg)
  assume "consistent s"
  then show ?thesis unfolding RunnerClose
    by (auto simp: consistent_def handler_defs Let_def split: option.splits if_splits)
next
  case (RunnerError m)
  assume "consistent s"
  then show ?thesis unfolding RunnerError by simp
next
  case RunnerStdinEnded
  assume "consistent s"
  then show ?thesis unfolding RunnerStdinEnded
    by (auto simp: consistent_def isRunning_def split: option.splits if_splits)
next
  case (PanelMessage msg st)
  assume "consistent s"
  then show ?thesis unfolding PanelMessage
    by (cases msg) (auto simp: consistent_def handler_defs Let_def split: option.splits if_splits sum.splits prod.splits)
next
  case PanelDisposed
  assume "consistent s"
  then show ?thesis unfolding PanelDisposed
    by (auto simp: consistent_def handler_defs Let_def split: option.splits if_splits)
next
  case Dispose
  assume "consistent s"
  then show ?thesis unfolding Dispose
    by (auto simp: consistent_def handler_defs Let_def split: option.splits if_splits)
next
  case (ModalAnswered i ch)
  assume c: "consistent s"
  show ?thesis unfolding ModalAnswered
    using c consistent_resume [OF c, of i]
    by (auto simp: confirmAnswered_def split: option.splits continuation.splits)
next
  case (ChoiceAnswered i ch)
  assume c: "consistent s"
  show ?thesis unfolding ChoiceAnswered
    using c consistent_resume [OF c, of i]
    by (auto simp: choiceAnswered_def Let_def split: option.splits continuation.splits)
next
  case (GitCommitExited i ex)
  assume "consistent s"
  then show ?thesis unfolding GitCommitExited
    by (auto simp: consistent_def handler_defs Let_def split: option.splits if_splits continuation.splits sum.splits prod.splits)
qed

lemma consistent_execAll: "consistent (execAll ins)"
proof (induction ins rule: rev_induct)
  case Nil
  show ?case by (simp add: execAll_def consistent_def newSeshatController_def)
next
  case (snoc x ins)
  then show ?case by (simp add: execAll_snoc consistent_step)
qed

section \<open>The workflow\<close>

subsection \<open>Reading effects\<close>

lemma responses_append [simp]: "responses (a @ b) = responses a @ responses b"
  by (induction a rule: responses.induct) simp_all

lemma stdinWrites_append [simp]: "stdinWrites (a @ b) = stdinWrites a @ stdinWrites b"
  by (induction a rule: stdinWrites.induct) simp_all

lemma gitSpawns_append [simp]: "gitSpawns (a @ b) = gitSpawns a @ gitSpawns b"
  by (induction a rule: gitSpawns.induct) simp_all

lemma statuses_append [simp]: "statuses (a @ b) = statuses a @ statuses b"
  by (induction a rule: statuses.induct) simp_all

lemma commitActions_append [simp]: "commitActions (a @ b) = commitActions a @ commitActions b"
  by (induction a rule: commitActions.induct) simp_all

lemma processCalls_append [simp]: "processCalls (a @ b) = processCalls a @ processCalls b"
  by (induction a rule: processCalls.induct) simp_all

lemma stdinWrites_map [simp]: "stdinWrites (map StdinWrite ws) = ws"
  by (induction ws) simp_all

lemma responses_map [simp]: "responses (map StdinWrite ws) = []"
  by (induction ws) simp_all

lemma gitSpawns_map [simp]: "gitSpawns (map StdinWrite ws) = []"
  by (induction ws) simp_all

lemma statuses_map [simp]: "statuses (map StdinWrite ws) = []"
  by (induction ws) simp_all

lemma commitActions_map [simp]: "commitActions (map StdinWrite ws) = []"
  by (induction ws) simp_all

lemma processCalls_map [simp]: "processCalls (map StdinWrite ws) = []"
  by (induction ws) simp_all

lemma systemOutputs_append [simp]: "systemOutputs (a @ b) = systemOutputs a @ systemOutputs b"
  by (induction a rule: systemOutputs.induct) simp_all

lemma quickPicks_append [simp]: "quickPicks (a @ b) = quickPicks a @ quickPicks b"
  by (induction a rule: quickPicks.induct) simp_all

lemma systemOutputs_map [simp]: "systemOutputs (map StdinWrite ws) = []"
  by (induction ws) simp_all

lemma quickPicks_map [simp]: "quickPicks (map StdinWrite ws) = []"
  by (induction ws) simp_all

lemma runnerRespond_reads:
  "responses (runnerRespond s text) = (if runner s = None then [] else [text])"
  "stdinWrites (runnerRespond s (Some (JString t))) =
     (if stdinOpen s then [if endsWithNewline t then t else t @ [CHR 0x0A]] else [])"
  "gitSpawns (runnerRespond s text) = []"
  "statuses (runnerRespond s text) = []"
  "commitActions (runnerRespond s text) = []"
  "processCalls (runnerRespond s text) = (if runner s = None then [] else [RunnerRespond text])"
  "systemOutputs (runnerRespond s text) = []"
  "quickPicks (runnerRespond s text) = []"
  by (auto simp: runnerRespond_def respond_def stdinOpen_def split: option.splits json.splits)

lemma onPanel_reads:
  "responses (onPanel s (PanelShowCommitActions v p)) = []"
  "responses (onPanel s (PanelSetStatus st t)) = []"
  "responses (onPanel s (PanelPostSeshatEvent e)) = []"
  "responses (onPanel s (PanelPostSystemOutput a b)) = []"
  "stdinWrites (onPanel s (PanelShowCommitActions v p)) = []"
  "stdinWrites (onPanel s (PanelSetStatus st t)) = []"
  "stdinWrites (onPanel s (PanelPostSeshatEvent e)) = []"
  "stdinWrites (onPanel s (PanelPostSystemOutput a b)) = []"
  "gitSpawns (onPanel s (PanelShowCommitActions v p)) = []"
  "gitSpawns (onPanel s (PanelSetStatus st t)) = []"
  "processCalls (onPanel s (PanelShowCommitActions v p)) = []"
  "processCalls (onPanel s (PanelSetStatus st t)) = []"
  "statuses (onPanel s (PanelShowCommitActions v p)) = []"
  "statuses (onPanel s (PanelPostSeshatEvent e)) = []"
  "statuses (onPanel s (PanelPostSystemOutput a b)) = []"
  "statuses (onPanel s (PanelSetStatus st t)) = (if panel s then [st] else [])"
  "commitActions (onPanel s (PanelShowCommitActions v p)) = (if panel s then [(v, p)] else [])"
  "commitActions (onPanel s (PanelSetStatus st t)) = []"
  "commitActions (onPanel s (PanelPostSeshatEvent e)) = []"
  by (simp_all add: onPanel_def)

lemma gitCommitSettled_clears: "\<not> replacingWithManualGitCommit (fst (gitCommitSettled result s))"
  by (simp add: gitCommitSettled_def Let_def split: sum.splits prod.splits)

lemma gitCommitSettled_pending: "pending (fst (gitCommitSettled result s)) = pending s"
  by (simp add: gitCommitSettled_def Let_def split: sum.splits prod.splits)

lemma gitCommitSettled_calls:
  "responses (snd (gitCommitSettled result s)) = []"
  "stdinWrites (snd (gitCommitSettled result s)) = []"
  "gitSpawns (snd (gitCommitSettled result s)) = []"
  "processCalls (snd (gitCommitSettled result s)) = []"
  by (simp_all add: gitCommitSettled_def Let_def onPanel_def schedulePanelReset_def
      split: sum.splits prod.splits)



lemma terminal_flag_origin:
  assumes "sawTerminalEvent (fst (step s x))"
  shows "sawTerminalEvent s \<or> marksTerminal x"
proof (cases x)
  case (StartCommit wf cfg ao st)
  then show ?thesis using assms
    by (auto simp: handler_defs Let_def split: option.splits sum.splits if_splits)
next
  case (RunnerEvent e)
  then show ?thesis using assms
    by (auto simp: handler_defs Let_def split: option.splits if_splits json.splits)
next
  case (RunnerClose c sg)
  then show ?thesis using assms
    by (auto simp: handler_defs Let_def split: option.splits if_splits)
next
  case (PanelMessage msg st)
  then show ?thesis using assms
    by (cases msg) (auto simp: handler_defs spawnFailure_def Let_def split: option.splits if_splits prod.splits sum.splits json.splits)
next
  case PanelDisposed
  then show ?thesis using assms by (auto simp: handler_defs Let_def split: if_splits)
next
  case Dispose
  then show ?thesis using assms by (auto simp: handler_defs Let_def split: if_splits)
next
  case (ModalAnswered i ch)
  then show ?thesis using assms
    by (auto simp: handler_defs Let_def split: option.splits continuation.splits if_splits)
next
  case (ChoiceAnswered i ch)
  then show ?thesis using assms
    by (auto simp: handler_defs Let_def split: option.splits continuation.splits if_splits)
next
  case (GitCommitExited i ex)
  then show ?thesis using assms
    by (cases ex)
       (auto simp: resume_def suspended_def gitCommitSettled_def runGitCommit_def Let_def
          split: option.splits continuation.splits if_splits)
qed (use assms in \<open>auto split: if_splits\<close>)

lemma terminal_flag_history:
  "sawTerminalEvent (execAll ins) \<longrightarrow> list_ex marksTerminal ins"
proof (induction ins rule: rev_induct)
  case Nil
  show ?case by (simp add: execAll_def newSeshatController_def)
next
  case (snoc x ins)
  show ?case
    using snoc terminal_flag_origin [of "execAll ins" x] by (auto simp: execAll_snoc)
qed

subsection \<open>Prompts\<close>







subsection \<open>Operator actions\<close>

text \<open>
  C10. A confirm or cancel action that arrives while no commit confirmation is awaited
  leaves the whole state as it is and has no effect at all, so nothing is written to the
  tool. A message-edited action stores its text as the edited message in every state.
\<close>

theorem panel_action_frame:
  "(\<not> waitingForCommitConfirmation s \<longrightarrow>
      handlePanelMessage Confirm spawnThrows s = (s, []) \<and>
      handlePanelMessage Cancel spawnThrows s = (s, []) \<and>
      step s (PanelMessage Confirm spawnThrows) = (s, []) \<and>
      step s (PanelMessage Cancel spawnThrows) = (s, [])) \<and>
   handlePanelMessage (MessageEdited text) spawnThrows s = (s\<lparr>editedMessage := Some (JString text)\<rparr>, []) \<and>
   (panel s \<longrightarrow>
      step s (PanelMessage (MessageEdited text) spawnThrows) = (s\<lparr>editedMessage := Some (JString text)\<rparr>, []))"
proof -
  have idle: "\<not> waitingForCommitConfirmation s \<longrightarrow>
      handlePanelMessage Confirm spawnThrows s = (s, []) \<and>
      handlePanelMessage Cancel spawnThrows s = (s, [])"
    by (simp add: handlePanelMessage_def)
  have edit: "handlePanelMessage (MessageEdited text) spawnThrows s
      = (s\<lparr>editedMessage := Some (JString text)\<rparr>, [])"
    by (simp add: handlePanelMessage_def)
  have loop: "step s (PanelMessage msg spawnThrows)
      = (if panel s then handlePanelMessage msg spawnThrows s else (s, []))" for msg
    by simp
  show ?thesis
    unfolding loop using idle edit by simp
qed

text \<open>C10 on a started workflow with a proposed message: confirm and cancel before any
  prompt change nothing and write nothing; an edit is stored before and during the
  prompt.\<close>

theorem panel_action_frame_witness:
  "step (execAll
     [StartCommit (Some ''/w'') [] True None,
      RunnerEvent [(''event'', JString ''message_ready''), (''message'', JString ''fix: x'')]]) (PanelMessage Confirm None) = (execAll
     [StartCommit (Some ''/w'') [] True None,
      RunnerEvent [(''event'', JString ''message_ready''), (''message'', JString ''fix: x'')]], []) \<and>
   step (execAll
     [StartCommit (Some ''/w'') [] True None,
      RunnerEvent [(''event'', JString ''message_ready''), (''message'', JString ''fix: x'')]]) (PanelMessage Cancel None) = (execAll
     [StartCommit (Some ''/w'') [] True None,
      RunnerEvent [(''event'', JString ''message_ready''), (''message'', JString ''fix: x'')]], []) \<and>
   stdinWrites (snd (step (execAll
     [StartCommit (Some ''/w'') [] True None,
      RunnerEvent [(''event'', JString ''message_ready''), (''message'', JString ''fix: x'')]]) (PanelMessage Confirm None))) = [] \<and>
   editedMessage (fst (step (execAll
     [StartCommit (Some ''/w'') [] True None,
      RunnerEvent [(''event'', JString ''message_ready''), (''message'', JString ''fix: x'')]]) (PanelMessage (MessageEdited ''feat: y'') None)))
     = Some (JString ''feat: y'') \<and>
   editedMessage (fst (step (execAll
     [StartCommit (Some ''/w'') [] True None,
      RunnerEvent [(''event'', JString ''message_ready''), (''message'', JString ''fix: x'')],
      RunnerEvent [(''event'', JString ''confirm_needed''), (''message'', JString ''Confirm coMMit?'')]]) (PanelMessage (MessageEdited ''feat: y'') None)))
     = Some (JString ''feat: y'')"
proof -
  have w: "\<not> waitingForCommitConfirmation (execAll
     [StartCommit (Some ''/w'') [] True None,
      RunnerEvent [(''event'', JString ''message_ready''), (''message'', JString ''fix: x'')]])" by code_simp
  have p: "panel (execAll
     [StartCommit (Some ''/w'') [] True None,
      RunnerEvent [(''event'', JString ''message_ready''), (''message'', JString ''fix: x'')]])" by code_simp
  have p2: "panel (execAll
     [StartCommit (Some ''/w'') [] True None,
      RunnerEvent [(''event'', JString ''message_ready''), (''message'', JString ''fix: x'')],
      RunnerEvent [(''event'', JString ''confirm_needed''), (''message'', JString ''Confirm coMMit?'')]])" by code_simp
  have c: "step (execAll
     [StartCommit (Some ''/w'') [] True None,
      RunnerEvent [(''event'', JString ''message_ready''), (''message'', JString ''fix: x'')]]) (PanelMessage Confirm None) = (execAll
     [StartCommit (Some ''/w'') [] True None,
      RunnerEvent [(''event'', JString ''message_ready''), (''message'', JString ''fix: x'')]], [])"
    using panel_action_frame [of "execAll
     [StartCommit (Some ''/w'') [] True None,
      RunnerEvent [(''event'', JString ''message_ready''), (''message'', JString ''fix: x'')]]" None] w by blast
  have d: "step (execAll
     [StartCommit (Some ''/w'') [] True None,
      RunnerEvent [(''event'', JString ''message_ready''), (''message'', JString ''fix: x'')]]) (PanelMessage Cancel None) = (execAll
     [StartCommit (Some ''/w'') [] True None,
      RunnerEvent [(''event'', JString ''message_ready''), (''message'', JString ''fix: x'')]], [])"
    using panel_action_frame [of "execAll
     [StartCommit (Some ''/w'') [] True None,
      RunnerEvent [(''event'', JString ''message_ready''), (''message'', JString ''fix: x'')]]" None] w by blast
  have e: "step (execAll
     [StartCommit (Some ''/w'') [] True None,
      RunnerEvent [(''event'', JString ''message_ready''), (''message'', JString ''fix: x'')]]) (PanelMessage (MessageEdited ''feat: y'') None)
      = ((execAll
     [StartCommit (Some ''/w'') [] True None,
      RunnerEvent [(''event'', JString ''message_ready''), (''message'', JString ''fix: x'')]])\<lparr>editedMessage := Some (JString ''feat: y'')\<rparr>, [])"
    using panel_action_frame [of "execAll
     [StartCommit (Some ''/w'') [] True None,
      RunnerEvent [(''event'', JString ''message_ready''), (''message'', JString ''fix: x'')]]" None "''feat: y''"] p by blast
  have f: "step (execAll
     [StartCommit (Some ''/w'') [] True None,
      RunnerEvent [(''event'', JString ''message_ready''), (''message'', JString ''fix: x'')],
      RunnerEvent [(''event'', JString ''confirm_needed''), (''message'', JString ''Confirm coMMit?'')]]) (PanelMessage (MessageEdited ''feat: y'') None)
      = ((execAll
     [StartCommit (Some ''/w'') [] True None,
      RunnerEvent [(''event'', JString ''message_ready''), (''message'', JString ''fix: x'')],
      RunnerEvent [(''event'', JString ''confirm_needed''), (''message'', JString ''Confirm coMMit?'')]])\<lparr>editedMessage := Some (JString ''feat: y'')\<rparr>, [])"
    using panel_action_frame [of "execAll
     [StartCommit (Some ''/w'') [] True None,
      RunnerEvent [(''event'', JString ''message_ready''), (''message'', JString ''fix: x'')],
      RunnerEvent [(''event'', JString ''confirm_needed''), (''message'', JString ''Confirm coMMit?'')]]" None "''feat: y''"] p2 by blast
  show ?thesis
    unfolding c d e f by simp
qed

text \<open>
  C3, as the code has it. The operator confirms while the commit confirmation is awaited,
  in any state the controller can reach with the panel open. When the edited and the
  suggested message are both strings and the trimmed edited message equals the trimmed
  suggestion or is empty, the controller makes exactly one response, \<^verbatim>\<open>y\<close>, spawns no
  manual commit, and changes nothing but the two flags it clears; the runner writes that
  response as one line when its input stream is open. When one of the two messages is not
  a string, the handler ends in a \<^verbatim>\<open>TypeError\<close> with nothing sent and nothing changed.
\<close>

theorem confirm_unchanged_message:
  assumes "s = execAll ins" and "panel s" and "waitingForCommitConfirmation s"
  shows
    "(editedMessage s = Some (JString e) \<and> suggestedMessage s = Some (JString g)
        \<and> (trim e = trim g \<or> trim e = []) \<longrightarrow>
        responses (snd (step s (PanelMessage Confirm spawnThrows))) = [Some (JString ''y'')] \<and>
        gitSpawns (snd (step s (PanelMessage Confirm spawnThrows))) = [] \<and>
        stdinWrites (snd (step s (PanelMessage Confirm spawnThrows)))
          = (if stdinOpen s then [''y'' @ [CHR 0x0A]] else []) \<and>
        fst (step s (PanelMessage Confirm spawnThrows))
          = s\<lparr>waitingForCommitConfirmation := False, hasMessageReady := False\<rparr>) \<and>
     ((\<forall>e. editedMessage s \<noteq> Some (JString e)) \<or> (\<forall>g. suggestedMessage s \<noteq> Some (JString g)) \<longrightarrow>
        step s (PanelMessage Confirm spawnThrows) = (s, [Rejected TypeError]))"
proof -
  have "consistent s" using assms(1) consistent_execAll by simp
  then have r: "runner s \<noteq> None" using assms(2,3) by (auto simp: consistent_def)
  have so: "stdinOpen (s\<lparr>waitingForCommitConfirmation := False, hasMessageReady := False\<rparr>) = stdinOpen s"
    by (simp add: stdinOpen_def)
  have nl: "\<not> endsWithNewline ''y''" by (simp add: endsWithNewline_def)
  have stp: "step s (PanelMessage Confirm spawnThrows) = handleCommitConfirmation spawnThrows s"
    using assms(2,3) by (simp add: handlePanelMessage_def)
  have ok: "editedMessage s = Some (JString e) \<and> suggestedMessage s = Some (JString g)
        \<and> (trim e = trim g \<or> trim e = []) \<longrightarrow>
        responses (snd (step s (PanelMessage Confirm spawnThrows))) = [Some (JString ''y'')] \<and>
        gitSpawns (snd (step s (PanelMessage Confirm spawnThrows))) = [] \<and>
        stdinWrites (snd (step s (PanelMessage Confirm spawnThrows)))
          = (if stdinOpen s then [''y'' @ [CHR 0x0A]] else []) \<and>
        fst (step s (PanelMessage Confirm spawnThrows))
          = s\<lparr>waitingForCommitConfirmation := False, hasMessageReady := False\<rparr>"
    unfolding stp using r so nl
    by (auto simp: handleCommitConfirmation_def trimOf_def Let_def runnerRespond_reads onPanel_reads)
  have bad: "(\<forall>e. editedMessage s \<noteq> Some (JString e)) \<or> (\<forall>g. suggestedMessage s \<noteq> Some (JString g)) \<longrightarrow>
        step s (PanelMessage Confirm spawnThrows) = (s, [Rejected TypeError])"
    unfolding stp
    by (auto simp: handleCommitConfirmation_def trimOf_def split: option.splits json.splits)
  show ?thesis using ok bad by blast
qed

text \<open>C3 on runs: the suggestion "fix: x" confirmed as it is, blanked, and padded with
  white space; and a suggestion that is the number 5.\<close>

theorem confirm_unchanged_message_witness:
  "responses (snd (step (execAll
     [StartCommit (Some ''/w'') [] True None,
      RunnerEvent [(''event'', JString ''message_ready''), (''message'', JString ''fix: x'')],
      RunnerEvent [(''event'', JString ''confirm_needed''), (''message'', JString ''Confirm coMMit?'')]]) (PanelMessage Confirm None))) = [Some (JString ''y'')] \<and>
   gitSpawns (snd (step (execAll
     [StartCommit (Some ''/w'') [] True None,
      RunnerEvent [(''event'', JString ''message_ready''), (''message'', JString ''fix: x'')],
      RunnerEvent [(''event'', JString ''confirm_needed''), (''message'', JString ''Confirm coMMit?'')]]) (PanelMessage Confirm None))) = [] \<and>
   stdinWrites (snd (step (execAll
     [StartCommit (Some ''/w'') [] True None,
      RunnerEvent [(''event'', JString ''message_ready''), (''message'', JString ''fix: x'')],
      RunnerEvent [(''event'', JString ''confirm_needed''), (''message'', JString ''Confirm coMMit?'')]]) (PanelMessage Confirm None))) = [''y'' @ [CHR 0x0A]] \<and>
   responses (snd (step (execAll
     [StartCommit (Some ''/w'') [] True None,
      RunnerEvent [(''event'', JString ''message_ready''), (''message'', JString ''fix: x'')],
      RunnerEvent [(''event'', JString ''confirm_needed''), (''message'', JString ''Confirm coMMit?'')],
      PanelMessage (MessageEdited ''   '') None]) (PanelMessage Confirm None))) = [Some (JString ''y'')] \<and>
   gitSpawns (snd (step (execAll
     [StartCommit (Some ''/w'') [] True None,
      RunnerEvent [(''event'', JString ''message_ready''), (''message'', JString ''fix: x'')],
      RunnerEvent [(''event'', JString ''confirm_needed''), (''message'', JString ''Confirm coMMit?'')],
      PanelMessage (MessageEdited ''   '') None]) (PanelMessage Confirm None))) = [] \<and>
   responses (snd (step (execAll
     [StartCommit (Some ''/w'') [] True None,
      RunnerEvent [(''event'', JString ''message_ready''), (''message'', JString ''fix: x'')],
      RunnerEvent [(''event'', JString ''confirm_needed''), (''message'', JString ''Confirm coMMit?'')],
      PanelMessage (MessageEdited '' fix: x  '') None]) (PanelMessage Confirm None))) = [Some (JString ''y'')] \<and>
   gitSpawns (snd (step (execAll
     [StartCommit (Some ''/w'') [] True None,
      RunnerEvent [(''event'', JString ''message_ready''), (''message'', JString ''fix: x'')],
      RunnerEvent [(''event'', JString ''confirm_needed''), (''message'', JString ''Confirm coMMit?'')],
      PanelMessage (MessageEdited '' fix: x  '') None]) (PanelMessage Confirm None))) = [] \<and>
   step (execAll
     [StartCommit (Some ''/w'') [] True None,
      RunnerEvent [(''event'', JString ''message_ready''), (''message'', JNumber ''5'')],
      RunnerEvent [(''event'', JString ''confirm_needed''), (''message'', JString ''Confirm coMMit?'')]]) (PanelMessage Confirm None) = (execAll
     [StartCommit (Some ''/w'') [] True None,
      RunnerEvent [(''event'', JString ''message_ready''), (''message'', JNumber ''5'')],
      RunnerEvent [(''event'', JString ''confirm_needed''), (''message'', JString ''Confirm coMMit?'')]], [Rejected TypeError])"
proof -
  have a: "panel (execAll
     [StartCommit (Some ''/w'') [] True None,
      RunnerEvent [(''event'', JString ''message_ready''), (''message'', JString ''fix: x'')],
      RunnerEvent [(''event'', JString ''confirm_needed''), (''message'', JString ''Confirm coMMit?'')]])"
    "waitingForCommitConfirmation (execAll
     [StartCommit (Some ''/w'') [] True None,
      RunnerEvent [(''event'', JString ''message_ready''), (''message'', JString ''fix: x'')],
      RunnerEvent [(''event'', JString ''confirm_needed''), (''message'', JString ''Confirm coMMit?'')]])"
    by code_simp+
  have am: "editedMessage (execAll
     [StartCommit (Some ''/w'') [] True None,
      RunnerEvent [(''event'', JString ''message_ready''), (''message'', JString ''fix: x'')],
      RunnerEvent [(''event'', JString ''confirm_needed''), (''message'', JString ''Confirm coMMit?'')]]) = Some (JString ''fix: x'') \<and>
      suggestedMessage (execAll
     [StartCommit (Some ''/w'') [] True None,
      RunnerEvent [(''event'', JString ''message_ready''), (''message'', JString ''fix: x'')],
      RunnerEvent [(''event'', JString ''confirm_needed''), (''message'', JString ''Confirm coMMit?'')]]) = Some (JString ''fix: x'') \<and>
      (trim ''fix: x'' = trim ''fix: x'' \<or> trim ''fix: x'' = [])"
    by code_simp
  have b: "panel (execAll
     [StartCommit (Some ''/w'') [] True None,
      RunnerEvent [(''event'', JString ''message_ready''), (''message'', JString ''fix: x'')],
      RunnerEvent [(''event'', JString ''confirm_needed''), (''message'', JString ''Confirm coMMit?'')],
      PanelMessage (MessageEdited ''   '') None])"
    "waitingForCommitConfirmation (execAll
     [StartCommit (Some ''/w'') [] True None,
      RunnerEvent [(''event'', JString ''message_ready''), (''message'', JString ''fix: x'')],
      RunnerEvent [(''event'', JString ''confirm_needed''), (''message'', JString ''Confirm coMMit?'')],
      PanelMessage (MessageEdited ''   '') None])"
    by code_simp+
  have bm: "editedMessage (execAll
     [StartCommit (Some ''/w'') [] True None,
      RunnerEvent [(''event'', JString ''message_ready''), (''message'', JString ''fix: x'')],
      RunnerEvent [(''event'', JString ''confirm_needed''), (''message'', JString ''Confirm coMMit?'')],
      PanelMessage (MessageEdited ''   '') None]) = Some (JString ''   '') \<and>
      suggestedMessage (execAll
     [StartCommit (Some ''/w'') [] True None,
      RunnerEvent [(''event'', JString ''message_ready''), (''message'', JString ''fix: x'')],
      RunnerEvent [(''event'', JString ''confirm_needed''), (''message'', JString ''Confirm coMMit?'')],
      PanelMessage (MessageEdited ''   '') None]) = Some (JString ''fix: x'') \<and>
      (trim ''   '' = trim ''fix: x'' \<or> trim ''   '' = [])"
    by code_simp
  have c: "panel (execAll
     [StartCommit (Some ''/w'') [] True None,
      RunnerEvent [(''event'', JString ''message_ready''), (''message'', JString ''fix: x'')],
      RunnerEvent [(''event'', JString ''confirm_needed''), (''message'', JString ''Confirm coMMit?'')],
      PanelMessage (MessageEdited '' fix: x  '') None])"
    "waitingForCommitConfirmation (execAll
     [StartCommit (Some ''/w'') [] True None,
      RunnerEvent [(''event'', JString ''message_ready''), (''message'', JString ''fix: x'')],
      RunnerEvent [(''event'', JString ''confirm_needed''), (''message'', JString ''Confirm coMMit?'')],
      PanelMessage (MessageEdited '' fix: x  '') None])"
    by code_simp+
  have cm: "editedMessage (execAll
     [StartCommit (Some ''/w'') [] True None,
      RunnerEvent [(''event'', JString ''message_ready''), (''message'', JString ''fix: x'')],
      RunnerEvent [(''event'', JString ''confirm_needed''), (''message'', JString ''Confirm coMMit?'')],
      PanelMessage (MessageEdited '' fix: x  '') None]) = Some (JString '' fix: x  '') \<and>
      suggestedMessage (execAll
     [StartCommit (Some ''/w'') [] True None,
      RunnerEvent [(''event'', JString ''message_ready''), (''message'', JString ''fix: x'')],
      RunnerEvent [(''event'', JString ''confirm_needed''), (''message'', JString ''Confirm coMMit?'')],
      PanelMessage (MessageEdited '' fix: x  '') None]) = Some (JString ''fix: x'') \<and>
      (trim '' fix: x  '' = trim ''fix: x'' \<or> trim '' fix: x  '' = [])"
    by code_simp
  have d: "panel (execAll
     [StartCommit (Some ''/w'') [] True None,
      RunnerEvent [(''event'', JString ''message_ready''), (''message'', JNumber ''5'')],
      RunnerEvent [(''event'', JString ''confirm_needed''), (''message'', JString ''Confirm coMMit?'')]])"
    "waitingForCommitConfirmation (execAll
     [StartCommit (Some ''/w'') [] True None,
      RunnerEvent [(''event'', JString ''message_ready''), (''message'', JNumber ''5'')],
      RunnerEvent [(''event'', JString ''confirm_needed''), (''message'', JString ''Confirm coMMit?'')]])"
    by code_simp+
  have dm: "\<forall>e. editedMessage (execAll
     [StartCommit (Some ''/w'') [] True None,
      RunnerEvent [(''event'', JString ''message_ready''), (''message'', JNumber ''5'')],
      RunnerEvent [(''event'', JString ''confirm_needed''), (''message'', JString ''Confirm coMMit?'')]]) \<noteq> Some (JString e)"
  proof -
    have "editedMessage (execAll
     [StartCommit (Some ''/w'') [] True None,
      RunnerEvent [(''event'', JString ''message_ready''), (''message'', JNumber ''5'')],
      RunnerEvent [(''event'', JString ''confirm_needed''), (''message'', JString ''Confirm coMMit?'')]]) = Some (JNumber ''5'')" by code_simp
    then show ?thesis by simp
  qed
  have o: "stdinOpen (execAll
     [StartCommit (Some ''/w'') [] True None,
      RunnerEvent [(''event'', JString ''message_ready''), (''message'', JString ''fix: x'')],
      RunnerEvent [(''event'', JString ''confirm_needed''), (''message'', JString ''Confirm coMMit?'')]])" by code_simp
  show ?thesis
    using confirm_unchanged_message [OF refl a, where spawnThrows = None and e = "''fix: x''" and g = "''fix: x''"] am o
      confirm_unchanged_message [OF refl b, where spawnThrows = None and e = "''   ''" and g = "''fix: x''"] bm
      confirm_unchanged_message [OF refl c, where spawnThrows = None and e = "'' fix: x  ''" and g = "''fix: x''"] cm
      confirm_unchanged_message [OF refl d, where spawnThrows = None] dm
    by simp
qed

text \<open>
  C3 as stated has one \<^verbatim>\<open>y\<close> written whenever the trimmed edited message is empty. The
  tool proposed the number 5 as the message and the operator cleared the field: the
  confirmation sends nothing.
\<close>

theorem confirm_untyped_suggestion_counterexample:
  "waitingForCommitConfirmation (execAll
     [StartCommit (Some ''/w'') [] True None,
      RunnerEvent [(''event'', JString ''message_ready''), (''message'', JNumber ''5'')],
      RunnerEvent [(''event'', JString ''confirm_needed''), (''message'', JString ''Confirm coMMit?'')],
      PanelMessage (MessageEdited []) None]) \<and>
   panel (execAll
     [StartCommit (Some ''/w'') [] True None,
      RunnerEvent [(''event'', JString ''message_ready''), (''message'', JNumber ''5'')],
      RunnerEvent [(''event'', JString ''confirm_needed''), (''message'', JString ''Confirm coMMit?'')],
      PanelMessage (MessageEdited []) None]) \<and>
   editedMessage (execAll
     [StartCommit (Some ''/w'') [] True None,
      RunnerEvent [(''event'', JString ''message_ready''), (''message'', JNumber ''5'')],
      RunnerEvent [(''event'', JString ''confirm_needed''), (''message'', JString ''Confirm coMMit?'')],
      PanelMessage (MessageEdited []) None]) = Some (JString []) \<and>
   trim [] = [] \<and>
   suggestedMessage (execAll
     [StartCommit (Some ''/w'') [] True None,
      RunnerEvent [(''event'', JString ''message_ready''), (''message'', JNumber ''5'')],
      RunnerEvent [(''event'', JString ''confirm_needed''), (''message'', JString ''Confirm coMMit?'')],
      PanelMessage (MessageEdited []) None]) = Some (JNumber ''5'') \<and>
   responses (snd (step (execAll
     [StartCommit (Some ''/w'') [] True None,
      RunnerEvent [(''event'', JString ''message_ready''), (''message'', JNumber ''5'')],
      RunnerEvent [(''event'', JString ''confirm_needed''), (''message'', JString ''Confirm coMMit?'')],
      PanelMessage (MessageEdited []) None]) (PanelMessage Confirm None))) = [] \<and>
   stdinWrites (snd (step (execAll
     [StartCommit (Some ''/w'') [] True None,
      RunnerEvent [(''event'', JString ''message_ready''), (''message'', JNumber ''5'')],
      RunnerEvent [(''event'', JString ''confirm_needed''), (''message'', JString ''Confirm coMMit?'')],
      PanelMessage (MessageEdited []) None]) (PanelMessage Confirm None))) = [] \<and>
   responses (snd (step (execAll
     [StartCommit (Some ''/w'') [] True None,
      RunnerEvent [(''event'', JString ''message_ready''), (''message'', JNumber ''5'')],
      RunnerEvent [(''event'', JString ''confirm_needed''), (''message'', JString ''Confirm coMMit?'')],
      PanelMessage (MessageEdited []) None]) (PanelMessage Confirm None))) \<noteq> [Some (JString ''y'')]"
  by code_simp

text \<open>
  C2, as the code has it. The operator confirms while the commit confirmation is awaited,
  in any state the controller can reach with the panel open and the workspace root known;
  both messages are strings, and the trimmed edited message is not empty and differs from
  the trimmed suggestion. The controller responds \<^verbatim>\<open>n\<close> to the tool and then spawns one
  \<^verbatim>\<open>git commit -m\<close> with the trimmed edited message as the argument, in the workspace
  root, and waits for it. When that commit exits with code 0, the terminal flag is set, the
  operator is notified, the panel reset is scheduled, nothing is sent to the tool, and, if
  the panel is open, the status is success and the captured output, standard output before
  standard error on separate lines, is shown when there is any. When it fails, by a
  non-zero or missing exit code or by a process error, the terminal flag is left as it
  was, and, if the panel is open, the status is error and the two captured outputs, each
  trimmed, are shown in the same way when there is any.
\<close>

theorem confirm_edited_message:
  assumes "s = execAll ins" and "panel s" and "waitingForCommitConfirmation s"
    and "editedMessage s = Some (JString e)" and "suggestedMessage s = Some (JString g)"
    and "trim e \<noteq> trim g" and "trim e \<noteq> []"
    and "workspacePath s = Some cwd" and "cwd \<noteq> []"
  shows
    "processCalls (snd (step s (PanelMessage Confirm spawnThrows)))
       = [RunnerRespond (Some (JString ''n'')), GitSpawn [''commit'', ''-m'', trim e] cwd] \<and>
     gitSpawns (snd (step s (PanelMessage Confirm spawnThrows))) = [([''commit'', ''-m'', trim e], cwd)] \<and>
     (spawnThrows = None \<longrightarrow>
        fst (step s (PanelMessage Confirm spawnThrows))
          = s\<lparr>waitingForCommitConfirmation := False, hasMessageReady := False,
               replacingWithManualGitCommit := True,
               pending := pending s @ [AwaitGitCommit cwd (trim e)]\<rparr>) \<and>
     (suspended t i = Some (AwaitGitCommit cwd' edited) \<longrightarrow>
        statuses (snd (step t (GitCommitExited i (GitChildClose (Some 0) out err)))) = (if panel t then [StatusSuccess] else []) \<and>
        systemOutputs (snd (step t (GitCommitExited i (GitChildClose (Some 0) out err))))
          = (if panel t \<and> (out \<noteq> [] \<or> err \<noteq> [])
             then [(''git commit'',
                    if out = [] then err else if err = [] then out else out @ [CHR 0x0A] @ err)]
             else []) \<and>
        sawTerminalEvent (fst (step t (GitCommitExited i (GitChildClose (Some 0) out err)))) \<and>
        ShowInformationMessage ''Seshat: commit realizado com a mensagem editada.''
          \<in> set (snd (step t (GitCommitExited i (GitChildClose (Some 0) out err)))) \<and>
        SchedulePanelReset 1800 \<in> set (snd (step t (GitCommitExited i (GitChildClose (Some 0) out err)))) \<and>
        responses (snd (step t (GitCommitExited i (GitChildClose (Some 0) out err)))) = [] \<and>
        stdinWrites (snd (step t (GitCommitExited i (GitChildClose (Some 0) out err)))) = [] \<and>
        gitSpawns (snd (step t (GitCommitExited i (GitChildClose (Some 0) out err)))) = []) \<and>
     (suspended t i = Some (AwaitGitCommit cwd' edited) \<and> exitCode \<noteq> Some 0 \<longrightarrow>
        statuses (snd (step t (GitCommitExited i (GitChildClose exitCode out err)))) = (if panel t then [StatusError] else []) \<and>
        systemOutputs (snd (step t (GitCommitExited i (GitChildClose exitCode out err))))
          = (if panel t \<and> (trim out \<noteq> [] \<or> trim err \<noteq> [])
             then [(''git commit (erro)'',
                    if trim out = [] then trim err
                    else if trim err = [] then trim out
                    else trim out @ [CHR 0x0A] @ trim err)]
             else []) \<and>
        sawTerminalEvent (fst (step t (GitCommitExited i (GitChildClose exitCode out err)))) = sawTerminalEvent t \<and>
        responses (snd (step t (GitCommitExited i (GitChildClose exitCode out err)))) = [] \<and>
        statuses (snd (step t (GitCommitExited i (GitChildError m out err)))) = (if panel t then [StatusError] else []) \<and>
        systemOutputs (snd (step t (GitCommitExited i (GitChildError m out err))))
          = (if panel t \<and> (trim out \<noteq> [] \<or> trim err \<noteq> [])
             then [(''git commit (erro)'',
                    if trim out = [] then trim err
                    else if trim err = [] then trim out
                    else trim out @ [CHR 0x0A] @ trim err)]
             else []) \<and>
        sawTerminalEvent (fst (step t (GitCommitExited i (GitChildError m out err)))) = sawTerminalEvent t \<and>
        responses (snd (step t (GitCommitExited i (GitChildError m out err)))) = [])"
proof -
  have "consistent s" using assms(1) consistent_execAll by simp
  then have r: "runner s \<noteq> None" using assms(2,3) by (auto simp: consistent_def)
  have stp: "step s (PanelMessage Confirm spawnThrows) = handleCommitConfirmation spawnThrows s"
    using assms(2,3) by (simp add: handlePanelMessage_def)
  have calls: "processCalls (snd (step s (PanelMessage Confirm spawnThrows)))
       = [RunnerRespond (Some (JString ''n'')), GitSpawn [''commit'', ''-m'', trim e] cwd] \<and>
     gitSpawns (snd (step s (PanelMessage Confirm spawnThrows))) = [([''commit'', ''-m'', trim e], cwd)]"
    unfolding stp using r assms(4-9)
    by (cases spawnThrows)
       (simp_all add: handleCommitConfirmation_def trimOf_def Let_def runnerRespond_reads onPanel_reads
          gitCommitSettled_calls split_def)
  have st: "spawnThrows = None \<longrightarrow>
        fst (step s (PanelMessage Confirm spawnThrows))
          = s\<lparr>waitingForCommitConfirmation := False, hasMessageReady := False,
               replacingWithManualGitCommit := True,
               pending := pending s @ [AwaitGitCommit cwd (trim e)]\<rparr>"
    unfolding stp using assms(4-9) by (simp add: handleCommitConfirmation_def trimOf_def Let_def)
  have trim_nil: "trim [] = []" by (simp add: trim_def)
  have ok: "suspended t i = Some (AwaitGitCommit cwd' edited) \<longrightarrow>
        statuses (snd (step t (GitCommitExited i (GitChildClose (Some 0) out err)))) = (if panel t then [StatusSuccess] else []) \<and>
        systemOutputs (snd (step t (GitCommitExited i (GitChildClose (Some 0) out err))))
          = (if panel t \<and> (out \<noteq> [] \<or> err \<noteq> [])
             then [(''git commit'',
                    if out = [] then err else if err = [] then out else out @ [CHR 0x0A] @ err)]
             else []) \<and>
        sawTerminalEvent (fst (step t (GitCommitExited i (GitChildClose (Some 0) out err)))) \<and>
        ShowInformationMessage ''Seshat: commit realizado com a mensagem editada.''
          \<in> set (snd (step t (GitCommitExited i (GitChildClose (Some 0) out err)))) \<and>
        SchedulePanelReset 1800 \<in> set (snd (step t (GitCommitExited i (GitChildClose (Some 0) out err)))) \<and>
        responses (snd (step t (GitCommitExited i (GitChildClose (Some 0) out err)))) = [] \<and>
        stdinWrites (snd (step t (GitCommitExited i (GitChildClose (Some 0) out err)))) = [] \<and>
        gitSpawns (snd (step t (GitCommitExited i (GitChildClose (Some 0) out err)))) = []"
    by (simp add: gitCommitSettled_def runGitCommit_def Let_def onPanel_def resume_def
        schedulePanelReset_def joinNonEmpty_def)
  have bad: "suspended t i = Some (AwaitGitCommit cwd' edited) \<and> exitCode \<noteq> Some 0 \<longrightarrow>
        statuses (snd (step t (GitCommitExited i (GitChildClose exitCode out err)))) = (if panel t then [StatusError] else []) \<and>
        systemOutputs (snd (step t (GitCommitExited i (GitChildClose exitCode out err))))
          = (if panel t \<and> (trim out \<noteq> [] \<or> trim err \<noteq> [])
             then [(''git commit (erro)'',
                    if trim out = [] then trim err
                    else if trim err = [] then trim out
                    else trim out @ [CHR 0x0A] @ trim err)]
             else []) \<and>
        sawTerminalEvent (fst (step t (GitCommitExited i (GitChildClose exitCode out err)))) = sawTerminalEvent t \<and>
        responses (snd (step t (GitCommitExited i (GitChildClose exitCode out err)))) = [] \<and>
        statuses (snd (step t (GitCommitExited i (GitChildError m out err)))) = (if panel t then [StatusError] else []) \<and>
        systemOutputs (snd (step t (GitCommitExited i (GitChildError m out err))))
          = (if panel t \<and> (trim out \<noteq> [] \<or> trim err \<noteq> [])
             then [(''git commit (erro)'',
                    if trim out = [] then trim err
                    else if trim err = [] then trim out
                    else trim out @ [CHR 0x0A] @ trim err)]
             else []) \<and>
        sawTerminalEvent (fst (step t (GitCommitExited i (GitChildError m out err)))) = sawTerminalEvent t \<and>
        responses (snd (step t (GitCommitExited i (GitChildError m out err)))) = []"
    using trim_nil
    by (simp add: gitCommitSettled_def runGitCommit_def Let_def onPanel_def resume_def joinNonEmpty_def)
  show ?thesis
    using calls st ok bad by blast
qed

text \<open>C2 on a run: suggested "fix: x", edited to " feat: y  ", confirmed; then the manual
  commit exits with 0, with 1, or fails to start, each with its captured output.\<close>

theorem confirm_edited_message_witness:
  "processCalls (snd (step (execAll
     [StartCommit (Some ''/w'') [] True None,
      RunnerEvent [(''event'', JString ''message_ready''), (''message'', JString ''fix: x'')],
      RunnerEvent [(''event'', JString ''confirm_needed''), (''message'', JString ''Confirm coMMit?'')],
      PanelMessage (MessageEdited '' feat: y  '') None]) (PanelMessage Confirm None)))
     = [RunnerRespond (Some (JString ''n'')), GitSpawn [''commit'', ''-m'', ''feat: y''] ''/w''] \<and>
   statuses (snd (step (execAll
     [StartCommit (Some ''/w'') [] True None,
      RunnerEvent [(''event'', JString ''message_ready''), (''message'', JString ''fix: x'')],
      RunnerEvent [(''event'', JString ''confirm_needed''), (''message'', JString ''Confirm coMMit?'')],
      PanelMessage (MessageEdited '' feat: y  '') None,
      PanelMessage Confirm None]) (GitCommitExited 0 (GitChildClose (Some 0) ''1 file changed'' ''hint: x'')))) = [StatusSuccess] \<and>
   systemOutputs (snd (step (execAll
     [StartCommit (Some ''/w'') [] True None,
      RunnerEvent [(''event'', JString ''message_ready''), (''message'', JString ''fix: x'')],
      RunnerEvent [(''event'', JString ''confirm_needed''), (''message'', JString ''Confirm coMMit?'')],
      PanelMessage (MessageEdited '' feat: y  '') None,
      PanelMessage Confirm None]) (GitCommitExited 0 (GitChildClose (Some 0) ''1 file changed'' ''hint: x'')))) = [(''git commit'', ''1 file changed'' @ [CHR 0x0A] @ ''hint: x'')] \<and>
   sawTerminalEvent (fst (step (execAll
     [StartCommit (Some ''/w'') [] True None,
      RunnerEvent [(''event'', JString ''message_ready''), (''message'', JString ''fix: x'')],
      RunnerEvent [(''event'', JString ''confirm_needed''), (''message'', JString ''Confirm coMMit?'')],
      PanelMessage (MessageEdited '' feat: y  '') None,
      PanelMessage Confirm None]) (GitCommitExited 0 (GitChildClose (Some 0) ''1 file changed'' ''hint: x'')))) \<and>
   responses (snd (step (execAll
     [StartCommit (Some ''/w'') [] True None,
      RunnerEvent [(''event'', JString ''message_ready''), (''message'', JString ''fix: x'')],
      RunnerEvent [(''event'', JString ''confirm_needed''), (''message'', JString ''Confirm coMMit?'')],
      PanelMessage (MessageEdited '' feat: y  '') None,
      PanelMessage Confirm None]) (GitCommitExited 0 (GitChildClose (Some 0) ''1 file changed'' ''hint: x'')))) = [] \<and>
   statuses (snd (step (execAll
     [StartCommit (Some ''/w'') [] True None,
      RunnerEvent [(''event'', JString ''message_ready''), (''message'', JString ''fix: x'')],
      RunnerEvent [(''event'', JString ''confirm_needed''), (''message'', JString ''Confirm coMMit?'')],
      PanelMessage (MessageEdited '' feat: y  '') None,
      PanelMessage Confirm None]) (GitCommitExited 0 (GitChildClose (Some 1) '' a '' ('' nothing to commit'' @ [CHR 0x0A]))))) = [StatusError] \<and>
   systemOutputs (snd (step (execAll
     [StartCommit (Some ''/w'') [] True None,
      RunnerEvent [(''event'', JString ''message_ready''), (''message'', JString ''fix: x'')],
      RunnerEvent [(''event'', JString ''confirm_needed''), (''message'', JString ''Confirm coMMit?'')],
      PanelMessage (MessageEdited '' feat: y  '') None,
      PanelMessage Confirm None]) (GitCommitExited 0 (GitChildClose (Some 1) '' a '' ('' nothing to commit'' @ [CHR 0x0A])))))
     = [(''git commit (erro)'', ''a'' @ [CHR 0x0A] @ ''nothing to commit'')] \<and>
   statuses (snd (step (execAll
     [StartCommit (Some ''/w'') [] True None,
      RunnerEvent [(''event'', JString ''message_ready''), (''message'', JString ''fix: x'')],
      RunnerEvent [(''event'', JString ''confirm_needed''), (''message'', JString ''Confirm coMMit?'')],
      PanelMessage (MessageEdited '' feat: y  '') None,
      PanelMessage Confirm None]) (GitCommitExited 0 (GitChildError ''spawn git ENOENT'' [] ''fatal'')))) = [StatusError] \<and>
   systemOutputs (snd (step (execAll
     [StartCommit (Some ''/w'') [] True None,
      RunnerEvent [(''event'', JString ''message_ready''), (''message'', JString ''fix: x'')],
      RunnerEvent [(''event'', JString ''confirm_needed''), (''message'', JString ''Confirm coMMit?'')],
      PanelMessage (MessageEdited '' feat: y  '') None,
      PanelMessage Confirm None]) (GitCommitExited 0 (GitChildError ''spawn git ENOENT'' [] ''fatal'')))) = [(''git commit (erro)'', ''fatal'')]"
proof -
  have h: "panel (execAll
     [StartCommit (Some ''/w'') [] True None,
      RunnerEvent [(''event'', JString ''message_ready''), (''message'', JString ''fix: x'')],
      RunnerEvent [(''event'', JString ''confirm_needed''), (''message'', JString ''Confirm coMMit?'')],
      PanelMessage (MessageEdited '' feat: y  '') None])"
    "waitingForCommitConfirmation (execAll
     [StartCommit (Some ''/w'') [] True None,
      RunnerEvent [(''event'', JString ''message_ready''), (''message'', JString ''fix: x'')],
      RunnerEvent [(''event'', JString ''confirm_needed''), (''message'', JString ''Confirm coMMit?'')],
      PanelMessage (MessageEdited '' feat: y  '') None])"
    "editedMessage (execAll
     [StartCommit (Some ''/w'') [] True None,
      RunnerEvent [(''event'', JString ''message_ready''), (''message'', JString ''fix: x'')],
      RunnerEvent [(''event'', JString ''confirm_needed''), (''message'', JString ''Confirm coMMit?'')],
      PanelMessage (MessageEdited '' feat: y  '') None]) = Some (JString '' feat: y  '')"
    "suggestedMessage (execAll
     [StartCommit (Some ''/w'') [] True None,
      RunnerEvent [(''event'', JString ''message_ready''), (''message'', JString ''fix: x'')],
      RunnerEvent [(''event'', JString ''confirm_needed''), (''message'', JString ''Confirm coMMit?'')],
      PanelMessage (MessageEdited '' feat: y  '') None]) = Some (JString ''fix: x'')"
    "trim '' feat: y  '' \<noteq> trim ''fix: x''" "trim '' feat: y  '' \<noteq> []"
    "workspacePath (execAll
     [StartCommit (Some ''/w'') [] True None,
      RunnerEvent [(''event'', JString ''message_ready''), (''message'', JString ''fix: x'')],
      RunnerEvent [(''event'', JString ''confirm_needed''), (''message'', JString ''Confirm coMMit?'')],
      PanelMessage (MessageEdited '' feat: y  '') None]) = Some ''/w''"
    "''/w'' \<noteq> []"
    by code_simp+
  have e: "trim '' feat: y  '' = ''feat: y''" by code_simp
  have t: "suspended (execAll
     [StartCommit (Some ''/w'') [] True None,
      RunnerEvent [(''event'', JString ''message_ready''), (''message'', JString ''fix: x'')],
      RunnerEvent [(''event'', JString ''confirm_needed''), (''message'', JString ''Confirm coMMit?'')],
      PanelMessage (MessageEdited '' feat: y  '') None,
      PanelMessage Confirm None]) 0 = Some (AwaitGitCommit ''/w'' ''feat: y'') \<and>
      panel (execAll
     [StartCommit (Some ''/w'') [] True None,
      RunnerEvent [(''event'', JString ''message_ready''), (''message'', JString ''fix: x'')],
      RunnerEvent [(''event'', JString ''confirm_needed''), (''message'', JString ''Confirm coMMit?'')],
      PanelMessage (MessageEdited '' feat: y  '') None,
      PanelMessage Confirm None])"
    by code_simp
  have o: "trim '' a '' = ''a'' \<and> trim ('' nothing to commit'' @ [CHR 0x0A]) = ''nothing to commit'' \<and>
      trim [] = [] \<and> trim ''fatal'' = ''fatal''"
    by code_simp
  have n: "Some (1::int) \<noteq> Some 0" by simp
  show ?thesis
    using confirm_edited_message [OF refl h, where spawnThrows = None
        and t = "execAll
     [StartCommit (Some ''/w'') [] True None,
      RunnerEvent [(''event'', JString ''message_ready''), (''message'', JString ''fix: x'')],
      RunnerEvent [(''event'', JString ''confirm_needed''), (''message'', JString ''Confirm coMMit?'')],
      PanelMessage (MessageEdited '' feat: y  '') None,
      PanelMessage Confirm None]" and i = 0 and cwd' = "''/w''" and edited = "''feat: y''"
        and out = "''1 file changed''" and err = "''hint: x''" and exitCode = "Some 1"]
      confirm_edited_message [OF refl h, where spawnThrows = None
        and t = "execAll
     [StartCommit (Some ''/w'') [] True None,
      RunnerEvent [(''event'', JString ''message_ready''), (''message'', JString ''fix: x'')],
      RunnerEvent [(''event'', JString ''confirm_needed''), (''message'', JString ''Confirm coMMit?'')],
      PanelMessage (MessageEdited '' feat: y  '') None,
      PanelMessage Confirm None]" and i = 0 and cwd' = "''/w''" and edited = "''feat: y''"
        and out = "'' a ''" and err = "'' nothing to commit'' @ [CHR 0x0A]" and exitCode = "Some 1"]
      confirm_edited_message [OF refl h, where spawnThrows = None
        and t = "execAll
     [StartCommit (Some ''/w'') [] True None,
      RunnerEvent [(''event'', JString ''message_ready''), (''message'', JString ''fix: x'')],
      RunnerEvent [(''event'', JString ''confirm_needed''), (''message'', JString ''Confirm coMMit?'')],
      PanelMessage (MessageEdited '' feat: y  '') None,
      PanelMessage Confirm None]" and i = 0 and cwd' = "''/w''" and edited = "''feat: y''"
        and out = "[]" and err = "''fatal''" and exitCode = "Some 1" and m = "''spawn git ENOENT''"]
      e t o n
    by simp
qed

text \<open>
  C2 as stated passes the edited message as the argument. The edited message below has
  white space around it, and the argument is the trimmed text.
\<close>

theorem confirm_trims_message_counterexample:
  "editedMessage (execAll
     [StartCommit (Some ''/w'') [] True None,
      RunnerEvent [(''event'', JString ''message_ready''), (''message'', JString ''fix: x'')],
      RunnerEvent [(''event'', JString ''confirm_needed''), (''message'', JString ''Confirm coMMit?'')],
      PanelMessage (MessageEdited '' feat: y  '') None]) = Some (JString '' feat: y  '') \<and>
   workspacePath (execAll
     [StartCommit (Some ''/w'') [] True None,
      RunnerEvent [(''event'', JString ''message_ready''), (''message'', JString ''fix: x'')],
      RunnerEvent [(''event'', JString ''confirm_needed''), (''message'', JString ''Confirm coMMit?'')],
      PanelMessage (MessageEdited '' feat: y  '') None]) = Some ''/w'' \<and>
   gitSpawns (snd (step (execAll
     [StartCommit (Some ''/w'') [] True None,
      RunnerEvent [(''event'', JString ''message_ready''), (''message'', JString ''fix: x'')],
      RunnerEvent [(''event'', JString ''confirm_needed''), (''message'', JString ''Confirm coMMit?'')],
      PanelMessage (MessageEdited '' feat: y  '') None]) (PanelMessage Confirm None))) = [([''commit'', ''-m'', ''feat: y''], ''/w'')] \<and>
   gitSpawns (snd (step (execAll
     [StartCommit (Some ''/w'') [] True None,
      RunnerEvent [(''event'', JString ''message_ready''), (''message'', JString ''fix: x'')],
      RunnerEvent [(''event'', JString ''confirm_needed''), (''message'', JString ''Confirm coMMit?'')],
      PanelMessage (MessageEdited '' feat: y  '') None]) (PanelMessage Confirm None))) \<noteq> [([''commit'', ''-m'', '' feat: y  ''], ''/w'')]"
  by code_simp

text \<open>
  C4. A confirmation enters the manual fallback (both messages are strings, the trimmed
  edited message is not empty and differs from the trimmed suggestion). When the workspace
  root is unknown, or when the spawn of the manual commit throws, the handler ends at once
  with the fallback flag false and nothing left to wait for. Otherwise exactly the manual
  commit is awaited, and however it ends, in whatever state, the flag is false afterwards
  and the wait is over. In any state at all, a confirmation that returns with the flag set
  either found it set or left a manual commit to wait for.
\<close>

theorem fallback_flag_cleared:
  assumes "waitingForCommitConfirmation s"
    and "editedMessage s = Some (JString e)" and "suggestedMessage s = Some (JString g)"
    and "trim e \<noteq> trim g" and "trim e \<noteq> []"
  shows
    "(workspacePath s = None \<or> workspacePath s = Some [] \<longrightarrow>
        \<not> replacingWithManualGitCommit (fst (handlePanelMessage Confirm spawnThrows s)) \<and>
        pending (fst (handlePanelMessage Confirm spawnThrows s)) = pending s \<and>
        gitSpawns (snd (handlePanelMessage Confirm spawnThrows s)) = []) \<and>
     (spawnThrows \<noteq> None \<longrightarrow>
        \<not> replacingWithManualGitCommit (fst (handlePanelMessage Confirm spawnThrows s)) \<and>
        pending (fst (handlePanelMessage Confirm spawnThrows s)) = pending s) \<and>
     (workspacePath s = Some cwd \<and> cwd \<noteq> [] \<and> spawnThrows = None \<longrightarrow>
        pending (fst (handlePanelMessage Confirm spawnThrows s)) = pending s @ [AwaitGitCommit cwd (trim e)]) \<and>
     (suspended t i = Some (AwaitGitCommit cwd' edited) \<longrightarrow>
        \<not> replacingWithManualGitCommit (fst (step t (GitCommitExited i x))) \<and>
        pending (fst (step t (GitCommitExited i x))) = take i (pending t) @ drop (Suc i) (pending t)) \<and>
     \<not> replacingWithManualGitCommit (fst (gitCommitSettled result t)) \<and>
     (replacingWithManualGitCommit (fst (handlePanelMessage Confirm spawnThrows u)) \<longrightarrow>
        replacingWithManualGitCommit u \<or>
        (\<exists>dir text. pending (fst (handlePanelMessage Confirm spawnThrows u))
           = pending u @ [AwaitGitCommit dir text]))"
proof -
  have hp: "handlePanelMessage Confirm spawnThrows s = handleCommitConfirmation spawnThrows s"
    using assms(1) by (simp add: handlePanelMessage_def)
  have a: "workspacePath s = None \<or> workspacePath s = Some [] \<longrightarrow>
        \<not> replacingWithManualGitCommit (fst (handleCommitConfirmation spawnThrows s)) \<and>
        pending (fst (handleCommitConfirmation spawnThrows s)) = pending s \<and>
        gitSpawns (snd (handleCommitConfirmation spawnThrows s)) = []"
    using assms(2-5)
    by (auto simp: handleCommitConfirmation_def trimOf_def Let_def runnerRespond_reads onPanel_reads)
  have b: "spawnThrows \<noteq> None \<longrightarrow>
        \<not> replacingWithManualGitCommit (fst (handleCommitConfirmation spawnThrows s)) \<and>
        pending (fst (handleCommitConfirmation spawnThrows s)) = pending s"
    using assms(2-5)
    by (auto simp: handleCommitConfirmation_def trimOf_def Let_def split_def gitCommitSettled_clears
        gitCommitSettled_pending split: option.splits)
  have c: "workspacePath s = Some cwd \<and> cwd \<noteq> [] \<and> spawnThrows = None \<longrightarrow>
        pending (fst (handleCommitConfirmation spawnThrows s))
          = pending s @ [AwaitGitCommit cwd (trim e)]"
    using assms(2-5) by (auto simp: handleCommitConfirmation_def trimOf_def Let_def)
  have d: "suspended t i = Some (AwaitGitCommit cwd' edited) \<longrightarrow>
        \<not> replacingWithManualGitCommit (fst (step t (GitCommitExited i x))) \<and>
        pending (fst (step t (GitCommitExited i x))) = take i (pending t) @ drop (Suc i) (pending t)"
    by (simp add: gitCommitSettled_clears gitCommitSettled_pending resume_def)
  have f: "replacingWithManualGitCommit (fst (handlePanelMessage Confirm spawnThrows u)) \<longrightarrow>
        replacingWithManualGitCommit u \<or>
        (\<exists>dir text. pending (fst (handlePanelMessage Confirm spawnThrows u))
           = pending u @ [AwaitGitCommit dir text])"
    by (auto simp: handlePanelMessage_def handleCommitConfirmation_def trimOf_def Let_def split_def
        gitCommitSettled_clears split: option.splits json.splits if_splits)
  show ?thesis
    unfolding hp using a b c d f gitCommitSettled_clears by blast
qed

text \<open>C4 on runs: no workspace path, a spawn that throws, a manual commit that is awaited
  and exits with 1 or with 0.\<close>

theorem fallback_flag_cleared_witness:
  "\<not> replacingWithManualGitCommit
      (fst (handlePanelMessage Confirm None (execAll
     [StartCommit (Some []) [] True None,
      RunnerEvent [(''event'', JString ''message_ready''), (''message'', JString ''fix: x'')],
      RunnerEvent [(''event'', JString ''confirm_needed''), (''message'', JString ''Confirm coMMit?'')],
      PanelMessage (MessageEdited '' feat: y  '') None]))) \<and>
   \<not> replacingWithManualGitCommit
      (fst (handlePanelMessage Confirm (Some ''spawn EAGAIN'') (execAll
     [StartCommit (Some ''/w'') [] True None,
      RunnerEvent [(''event'', JString ''message_ready''), (''message'', JString ''fix: x'')],
      RunnerEvent [(''event'', JString ''confirm_needed''), (''message'', JString ''Confirm coMMit?'')],
      PanelMessage (MessageEdited '' feat: y  '') None]))) \<and>
   pending (fst (handlePanelMessage Confirm None (execAll
     [StartCommit (Some ''/w'') [] True None,
      RunnerEvent [(''event'', JString ''message_ready''), (''message'', JString ''fix: x'')],
      RunnerEvent [(''event'', JString ''confirm_needed''), (''message'', JString ''Confirm coMMit?'')],
      PanelMessage (MessageEdited '' feat: y  '') None])))
     = pending (execAll
     [StartCommit (Some ''/w'') [] True None,
      RunnerEvent [(''event'', JString ''message_ready''), (''message'', JString ''fix: x'')],
      RunnerEvent [(''event'', JString ''confirm_needed''), (''message'', JString ''Confirm coMMit?'')],
      PanelMessage (MessageEdited '' feat: y  '') None]) @ [AwaitGitCommit ''/w'' ''feat: y''] \<and>
   \<not> replacingWithManualGitCommit
      (fst (step (execAll
     [StartCommit (Some ''/w'') [] True None,
      RunnerEvent [(''event'', JString ''message_ready''), (''message'', JString ''fix: x'')],
      RunnerEvent [(''event'', JString ''confirm_needed''), (''message'', JString ''Confirm coMMit?'')],
      PanelMessage (MessageEdited '' feat: y  '') None,
      PanelMessage Confirm None])
         (GitCommitExited 0 (GitChildClose (Some 1) [] ''nothing to commit'')))) \<and>
   \<not> replacingWithManualGitCommit
      (fst (step (execAll
     [StartCommit (Some ''/w'') [] True None,
      RunnerEvent [(''event'', JString ''message_ready''), (''message'', JString ''fix: x'')],
      RunnerEvent [(''event'', JString ''confirm_needed''), (''message'', JString ''Confirm coMMit?'')],
      PanelMessage (MessageEdited '' feat: y  '') None,
      PanelMessage Confirm None])
         (GitCommitExited 0 (GitChildClose (Some 0) ''1 file changed'' []))))"
proof -
  have h: "waitingForCommitConfirmation (execAll
     [StartCommit (Some ''/w'') [] True None,
      RunnerEvent [(''event'', JString ''message_ready''), (''message'', JString ''fix: x'')],
      RunnerEvent [(''event'', JString ''confirm_needed''), (''message'', JString ''Confirm coMMit?'')],
      PanelMessage (MessageEdited '' feat: y  '') None])"
    "editedMessage (execAll
     [StartCommit (Some ''/w'') [] True None,
      RunnerEvent [(''event'', JString ''message_ready''), (''message'', JString ''fix: x'')],
      RunnerEvent [(''event'', JString ''confirm_needed''), (''message'', JString ''Confirm coMMit?'')],
      PanelMessage (MessageEdited '' feat: y  '') None]) = Some (JString '' feat: y  '')"
    "suggestedMessage (execAll
     [StartCommit (Some ''/w'') [] True None,
      RunnerEvent [(''event'', JString ''message_ready''), (''message'', JString ''fix: x'')],
      RunnerEvent [(''event'', JString ''confirm_needed''), (''message'', JString ''Confirm coMMit?'')],
      PanelMessage (MessageEdited '' feat: y  '') None]) = Some (JString ''fix: x'')"
    "trim '' feat: y  '' \<noteq> trim ''fix: x''" "trim '' feat: y  '' \<noteq> []"
    by code_simp+
  have h0: "waitingForCommitConfirmation (execAll
     [StartCommit (Some []) [] True None,
      RunnerEvent [(''event'', JString ''message_ready''), (''message'', JString ''fix: x'')],
      RunnerEvent [(''event'', JString ''confirm_needed''), (''message'', JString ''Confirm coMMit?'')],
      PanelMessage (MessageEdited '' feat: y  '') None])"
    "editedMessage (execAll
     [StartCommit (Some []) [] True None,
      RunnerEvent [(''event'', JString ''message_ready''), (''message'', JString ''fix: x'')],
      RunnerEvent [(''event'', JString ''confirm_needed''), (''message'', JString ''Confirm coMMit?'')],
      PanelMessage (MessageEdited '' feat: y  '') None]) = Some (JString '' feat: y  '')"
    "suggestedMessage (execAll
     [StartCommit (Some []) [] True None,
      RunnerEvent [(''event'', JString ''message_ready''), (''message'', JString ''fix: x'')],
      RunnerEvent [(''event'', JString ''confirm_needed''), (''message'', JString ''Confirm coMMit?'')],
      PanelMessage (MessageEdited '' feat: y  '') None]) = Some (JString ''fix: x'')"
    "trim '' feat: y  '' \<noteq> trim ''fix: x''" "trim '' feat: y  '' \<noteq> []"
    by code_simp+
  have w0: "workspacePath (execAll
     [StartCommit (Some []) [] True None,
      RunnerEvent [(''event'', JString ''message_ready''), (''message'', JString ''fix: x'')],
      RunnerEvent [(''event'', JString ''confirm_needed''), (''message'', JString ''Confirm coMMit?'')],
      PanelMessage (MessageEdited '' feat: y  '') None]) = Some []"
    by code_simp
  have w: "workspacePath (execAll
     [StartCommit (Some ''/w'') [] True None,
      RunnerEvent [(''event'', JString ''message_ready''), (''message'', JString ''fix: x'')],
      RunnerEvent [(''event'', JString ''confirm_needed''), (''message'', JString ''Confirm coMMit?'')],
      PanelMessage (MessageEdited '' feat: y  '') None]) = Some ''/w'' \<and> ''/w'' \<noteq> [] \<and> trim '' feat: y  '' = ''feat: y''"
    by code_simp
  have t: "suspended (execAll
     [StartCommit (Some ''/w'') [] True None,
      RunnerEvent [(''event'', JString ''message_ready''), (''message'', JString ''fix: x'')],
      RunnerEvent [(''event'', JString ''confirm_needed''), (''message'', JString ''Confirm coMMit?'')],
      PanelMessage (MessageEdited '' feat: y  '') None,
      PanelMessage Confirm None]) 0 = Some (AwaitGitCommit ''/w'' ''feat: y'')"
    by code_simp
  show ?thesis
    using fallback_flag_cleared [OF h0, where spawnThrows = None]
      fallback_flag_cleared [OF h, where spawnThrows = "Some ''spawn EAGAIN''"
        and t = "execAll
     [StartCommit (Some ''/w'') [] True None,
      RunnerEvent [(''event'', JString ''message_ready''), (''message'', JString ''fix: x'')],
      RunnerEvent [(''event'', JString ''confirm_needed''), (''message'', JString ''Confirm coMMit?'')],
      PanelMessage (MessageEdited '' feat: y  '') None,
      PanelMessage Confirm None]" and i = 0 and cwd' = "''/w''" and edited = "''feat: y''"
        and x = "GitChildClose (Some 1) [] ''nothing to commit''"]
      fallback_flag_cleared [OF h, where spawnThrows = None and cwd = "''/w''"
        and t = "execAll
     [StartCommit (Some ''/w'') [] True None,
      RunnerEvent [(''event'', JString ''message_ready''), (''message'', JString ''fix: x'')],
      RunnerEvent [(''event'', JString ''confirm_needed''), (''message'', JString ''Confirm coMMit?'')],
      PanelMessage (MessageEdited '' feat: y  '') None,
      PanelMessage Confirm None]" and i = 0 and cwd' = "''/w''" and edited = "''feat: y''"
        and x = "GitChildClose (Some 0) ''1 file changed'' []"] w0 w t
    by simp
qed

subsection \<open>Process close\<close>

text \<open>
  C5, as the code has it. The close notification of the attached runner arrives, in any
  state the controller can reach. When \<^verbatim>\<open>sawTerminalEvent\<close> is unset and no manual
  fallback is in progress, exactly one status is set: success for exit code 0, error for
  any other code or none. When the flag is set or the fallback is in progress, no status is
  set. In all cases the commit actions are hidden, the confirmation is no longer awaited,
  the runner is released, and nothing else in the session changes. The flag is set only
  after a \<^verbatim>\<open>committed\<close> or \<^verbatim>\<open>cancelled\<close> event or a manual commit that exited with code 0.
\<close>

theorem runner_close_transition:
  assumes "s = execAll ins" and "attached s"
  shows
    "(\<not> sawTerminalEvent s \<and> \<not> replacingWithManualGitCommit s \<longrightarrow>
        statuses (snd (step s (RunnerClose exitCode signal)))
          = [if exitCode = Some 0 then StatusSuccess else StatusError]) \<and>
     (sawTerminalEvent s \<or> replacingWithManualGitCommit s \<longrightarrow>
        statuses (snd (step s (RunnerClose exitCode signal))) = []) \<and>
     commitActions (snd (step s (RunnerClose exitCode signal))) = [(False, None)] \<and>
     \<not> waitingForCommitConfirmation (fst (step s (RunnerClose exitCode signal))) \<and>
     runner (fst (step s (RunnerClose exitCode signal))) = None \<and>
     \<not> runnerListeners (fst (step s (RunnerClose exitCode signal))) \<and>
     fst (step s (RunnerClose exitCode signal))
       = s\<lparr>runner := None, runnerListeners := False, waitingForCommitConfirmation := False\<rparr> \<and>
     (sawTerminalEvent s \<longrightarrow> list_ex marksTerminal ins)"
proof -
  have "consistent s" using assms(1) consistent_execAll by simp
  then have p: "panel s" using assms(2) by (auto simp: consistent_def attached_def)
  have h: "sawTerminalEvent s \<longrightarrow> list_ex marksTerminal ins"
    using assms(1) terminal_flag_history by simp
  show ?thesis
    using p assms(2) h by (simp add: handleRunnerClose_def cleanupRunner_def onPanel_reads)
qed

text \<open>C5 on runs: a close with 0, with 1 and with no code right after the start, a close
  during the manual fallback, and a close after a \<^verbatim>\<open>committed\<close> event.\<close>

theorem runner_close_transition_witness:
  "statuses (snd (step (execAll
     [StartCommit (Some ''/w'') [] True None]) (RunnerClose (Some 0) None))) = [StatusSuccess] \<and>
   statuses (snd (step (execAll
     [StartCommit (Some ''/w'') [] True None]) (RunnerClose (Some 1) None))) = [StatusError] \<and>
   statuses (snd (step (execAll
     [StartCommit (Some ''/w'') [] True None]) (RunnerClose (None) None))) = [StatusError] \<and>
   commitActions (snd (step (execAll
     [StartCommit (Some ''/w'') [] True None]) (RunnerClose (Some 0) None))) = [(False, None)] \<and>
   statuses (snd (step (execAll
     [StartCommit (Some ''/w'') [] True None,
      RunnerEvent [(''event'', JString ''message_ready''), (''message'', JString ''fix: x'')],
      RunnerEvent [(''event'', JString ''confirm_needed''), (''message'', JString ''Confirm coMMit?'')],
      PanelMessage (MessageEdited ''feat: y'') None,
      PanelMessage Confirm None]) (RunnerClose (Some 1) None))) = [] \<and>
   runner (fst (step (execAll
     [StartCommit (Some ''/w'') [] True None,
      RunnerEvent [(''event'', JString ''message_ready''), (''message'', JString ''fix: x'')],
      RunnerEvent [(''event'', JString ''confirm_needed''), (''message'', JString ''Confirm coMMit?'')],
      PanelMessage (MessageEdited ''feat: y'') None,
      PanelMessage Confirm None]) (RunnerClose (Some 1) None))) = None \<and>
   \<not> waitingForCommitConfirmation (fst (step (execAll
     [StartCommit (Some ''/w'') [] True None,
      RunnerEvent [(''event'', JString ''message_ready''), (''message'', JString ''fix: x'')],
      RunnerEvent [(''event'', JString ''confirm_needed''), (''message'', JString ''Confirm coMMit?'')],
      PanelMessage (MessageEdited ''feat: y'') None,
      PanelMessage Confirm None]) (RunnerClose (Some 1) None))) \<and>
   statuses (snd (step (execAll
     [StartCommit (Some ''/w'') [] True None,
      RunnerEvent [(''event'', JString ''committed''), (''summary'', JString ''abc123'')]]) (RunnerClose (Some 1) None))) = []"
proof -
  have a: "attached (execAll
     [StartCommit (Some ''/w'') [] True None])" by code_simp
  have f: "\<not> sawTerminalEvent (execAll
     [StartCommit (Some ''/w'') [] True None]) \<and>
      \<not> replacingWithManualGitCommit (execAll
     [StartCommit (Some ''/w'') [] True None])" by code_simp
  have b: "attached (execAll
     [StartCommit (Some ''/w'') [] True None,
      RunnerEvent [(''event'', JString ''message_ready''), (''message'', JString ''fix: x'')],
      RunnerEvent [(''event'', JString ''confirm_needed''), (''message'', JString ''Confirm coMMit?'')],
      PanelMessage (MessageEdited ''feat: y'') None,
      PanelMessage Confirm None])" by code_simp
  have g: "replacingWithManualGitCommit (execAll
     [StartCommit (Some ''/w'') [] True None,
      RunnerEvent [(''event'', JString ''message_ready''), (''message'', JString ''fix: x'')],
      RunnerEvent [(''event'', JString ''confirm_needed''), (''message'', JString ''Confirm coMMit?'')],
      PanelMessage (MessageEdited ''feat: y'') None,
      PanelMessage Confirm None])" by code_simp
  have c: "attached (execAll
     [StartCommit (Some ''/w'') [] True None,
      RunnerEvent [(''event'', JString ''committed''), (''summary'', JString ''abc123'')]])" by code_simp
  have h: "sawTerminalEvent (execAll
     [StartCommit (Some ''/w'') [] True None,
      RunnerEvent [(''event'', JString ''committed''), (''summary'', JString ''abc123'')]])" by code_simp
  have n: "Some (1::int) \<noteq> Some 0" "(None::int option) \<noteq> Some 0" by simp_all
  show ?thesis
    using runner_close_transition [OF refl a, where exitCode = "Some 0" and signal = None]
      runner_close_transition [OF refl a, where exitCode = "Some 1" and signal = None]
      runner_close_transition [OF refl a, where exitCode = "None" and signal = None]
      runner_close_transition [OF refl b, where exitCode = "Some 1" and signal = None]
      runner_close_transition [OF refl c, where exitCode = "Some 1" and signal = None] f g h n
    by simp
qed

text \<open>
  C5 as stated sets a status by the exit code whenever no \<^verbatim>\<open>committed\<close> or
  \<^verbatim>\<open>cancelled\<close> event was seen and no manual fallback is in progress. After a manual
  commit that succeeded, with no such event seen and the fallback over, the tool closes
  with exit code 1 and no status is set.
\<close>

theorem close_after_manual_commit_counterexample:
  "\<not> spec_terminalEventSeen [StartCommit (Some ''/w'') [] True None,
      RunnerEvent [(''event'', JString ''message_ready''), (''message'', JString ''fix: x'')],
      RunnerEvent [(''event'', JString ''confirm_needed''), (''message'', JString ''Confirm coMMit?'')],
      PanelMessage (MessageEdited ''feat: y'') None,
      PanelMessage Confirm None,
      GitCommitExited 0 (GitChildClose (Some 0) ''1 file changed'' [])] \<and>
   attached (execAll
     [StartCommit (Some ''/w'') [] True None,
      RunnerEvent [(''event'', JString ''message_ready''), (''message'', JString ''fix: x'')],
      RunnerEvent [(''event'', JString ''confirm_needed''), (''message'', JString ''Confirm coMMit?'')],
      PanelMessage (MessageEdited ''feat: y'') None,
      PanelMessage Confirm None,
      GitCommitExited 0 (GitChildClose (Some 0) ''1 file changed'' [])]) \<and>
   \<not> replacingWithManualGitCommit (execAll
     [StartCommit (Some ''/w'') [] True None,
      RunnerEvent [(''event'', JString ''message_ready''), (''message'', JString ''fix: x'')],
      RunnerEvent [(''event'', JString ''confirm_needed''), (''message'', JString ''Confirm coMMit?'')],
      PanelMessage (MessageEdited ''feat: y'') None,
      PanelMessage Confirm None,
      GitCommitExited 0 (GitChildClose (Some 0) ''1 file changed'' [])]) \<and>
   statuses (snd (step (execAll
     [StartCommit (Some ''/w'') [] True None,
      RunnerEvent [(''event'', JString ''message_ready''), (''message'', JString ''fix: x'')],
      RunnerEvent [(''event'', JString ''confirm_needed''), (''message'', JString ''Confirm coMMit?'')],
      PanelMessage (MessageEdited ''feat: y'') None,
      PanelMessage Confirm None,
      GitCommitExited 0 (GitChildClose (Some 0) ''1 file changed'' [])]) (RunnerClose (Some 1) None))) = [] \<and>
   statuses (snd (step (execAll
     [StartCommit (Some ''/w'') [] True None,
      RunnerEvent [(''event'', JString ''message_ready''), (''message'', JString ''fix: x'')],
      RunnerEvent [(''event'', JString ''confirm_needed''), (''message'', JString ''Confirm coMMit?'')],
      PanelMessage (MessageEdited ''feat: y'') None,
      PanelMessage Confirm None,
      GitCommitExited 0 (GitChildClose (Some 0) ''1 file changed'' [])]) (RunnerClose (Some 1) None))) \<noteq> [StatusError]"
  by code_simp

subsection \<open>The two flags\<close>








end
